theory Spec2Isabelle
  imports Complex_Main
begin

section \<open>ECMAScript values\<close>

text \<open>
  The dashboard is TypeScript whose data is typed \<open>any\<close>: what the functions below receive
  is whatever \<open>response.json()\<close> produced. The model therefore works on ECMAScript values:
  the JSON values, \<open>undefined\<close>, and the built-in objects that every object literal
  inherits from \<open>Object.prototype\<close> (kept opaque).

  Numbers are IEEE doubles in the program. Here a finite number is a real: rounding,
  overflow and the sign of zero are not modelled; \<open>NaN\<close> and the two infinities are kept
  as values of their own.
\<close>

datatype jsnum = NaN | NInf | Fin real | PInf

datatype jsval =
    Undefined
  | Null
  | Bool bool
  | Num jsnum
  | Str string
  | Arr "jsval list"
  | Obj "(string \<times> jsval) list"
  | Builtin string

text \<open>
  What is thrown: a TypeError by the language, the rejections of \<open>fetch\<close>, of
  \<open>response.json()\<close> and of an axios request, and the error the dispatch map throws
  itself on a response that is not ok.
\<close>

datatype error = TypeError | FetchRejected | HttpError | JsonRejected | AxiosError

definition thenE :: "error + 'a \<Rightarrow> ('a \<Rightarrow> error + 'b) \<Rightarrow> error + 'b" where
  "thenE m f = (case m of Inl e \<Rightarrow> Inl e | Inr v \<Rightarrow> f v)"

text \<open>\<open>!v\<close> is \<open>\<not> truthy v\<close>: the falsy values are \<open>undefined\<close>, \<open>null\<close>, \<open>false\<close>,
  \<open>0\<close>, \<open>NaN\<close> and the empty string.\<close>

fun truthy :: "jsval \<Rightarrow> bool" where
  "truthy Undefined = False"
| "truthy Null = False"
| "truthy (Bool b) = b"
| "truthy (Num n) = (n \<noteq> NaN \<and> n \<noteq> Fin 0)"
| "truthy (Str s) = (s \<noteq> [])"
| "truthy (Arr xs) = True"
| "truthy (Obj ps) = True"
| "truthy (Builtin b) = True"

definition js_or :: "jsval \<Rightarrow> jsval \<Rightarrow> jsval" where
  \<comment> \<open>\<open>a || b\<close>\<close>
  "js_or a b = (if truthy a then a else b)"

fun nullish :: "jsval \<Rightarrow> bool" where
  "nullish Undefined = True"
| "nullish Null = True"
| "nullish v = False"

text \<open>
  An object literal and an object made by \<open>JSON.parse\<close> both inherit from
  \<open>Object.prototype\<close>: reading a name that is not an own property yields the inherited
  member when there is one, and \<open>undefined\<close> only otherwise.
\<close>

definition Object_prototype :: "string list" where
  "Object_prototype =
     [''constructor'', ''hasOwnProperty'', ''isPrototypeOf'', ''propertyIsEnumerable'',
      ''toLocaleString'', ''toString'', ''valueOf'', ''__proto__'',
      ''__defineGetter__'', ''__defineSetter__'', ''__lookupGetter__'', ''__lookupSetter__'']"

definition inherited :: "string \<Rightarrow> jsval" where
  "inherited k = (if k \<in> set Object_prototype then Builtin k else Undefined)"

definition lookup :: "(string \<times> jsval) list \<Rightarrow> string \<Rightarrow> jsval" where
  \<comment> \<open>\<open>obj[k]\<close> on an ordinary object with own properties \<open>ps\<close>\<close>
  "lookup ps k = (case map_of ps k of Some v \<Rightarrow> v | None \<Rightarrow> inherited k)"

text \<open>
  \<open>v.k\<close> throws a TypeError on \<open>undefined\<close> and \<open>null\<close>. On booleans, numbers, strings,
  arrays and functions the program only ever reads the names of the backend's fields;
  none of them names a member of the wrapper prototypes, so only what \<open>Object.prototype\<close>
  provides is found there. Of several bindings of a name in an object the first counts.
\<close>

fun get :: "jsval \<Rightarrow> string \<Rightarrow> error + jsval" where
  "get Undefined k = Inl TypeError"
| "get Null k = Inl TypeError"
| "get (Obj ps) k = Inr (lookup ps k)"
| "get v k = Inr (inherited k)"

definition opt_get :: "jsval \<Rightarrow> string \<Rightarrow> jsval" where
  \<comment> \<open>\<open>v?.k\<close>: \<open>undefined\<close> where \<open>v.k\<close> would throw\<close>
  "opt_get v k = (case get v k of Inl e \<Rightarrow> Undefined | Inr x \<Rightarrow> x)"

subsection \<open>Conversions and arithmetic\<close>

text \<open>
  What the host does with strings, arrays and objects in a numeric or string position
  (the StringToNumber grammar, \<open>Number::toString\<close>, \<open>Array.prototype.join\<close>,
  \<open>parseFloat\<close>) is not code of this repository: it is a parameter of the model. The
  conversions are taken to be total: an object whose own \<open>toString\<close> and \<open>valueOf\<close>
  are data makes the host throw when it is converted, and is left out. A built-in
  function or prototype object converts to a string that is no numeric literal.
  \<open>String.prototype.toUpperCase\<close> and \<open>String.prototype.toLowerCase\<close> follow the
  Unicode case mappings (U+0131, the dotless i, becomes \<open>I\<close>); they are the host's too.
\<close>

record host =
  ToNumber_ext :: "jsval \<Rightarrow> jsnum"
  ToString_ext :: "jsval \<Rightarrow> string"
  parseFloat :: "string \<Rightarrow> jsnum"
  toUpperCase :: "string \<Rightarrow> string"
  toLowerCase :: "string \<Rightarrow> string"

fun ToNumber :: "host \<Rightarrow> jsval \<Rightarrow> jsnum" where
  "ToNumber h Undefined = NaN"
| "ToNumber h Null = Fin 0"
| "ToNumber h (Bool b) = (if b then Fin 1 else Fin 0)"
| "ToNumber h (Num n) = n"
| "ToNumber h (Builtin b) = NaN"
| "ToNumber h v = ToNumber_ext h v"

fun ToString :: "host \<Rightarrow> jsval \<Rightarrow> string" where
  "ToString h Undefined = ''undefined''"
| "ToString h Null = ''null''"
| "ToString h (Bool b) = (if b then ''true'' else ''false'')"
| "ToString h (Str s) = s"
| "ToString h v = ToString_ext h v"

fun num_neg :: "jsnum \<Rightarrow> jsnum" where
  "num_neg NaN = NaN"
| "num_neg NInf = PInf"
| "num_neg PInf = NInf"
| "num_neg (Fin x) = Fin (- x)"

fun num_add :: "jsnum \<Rightarrow> jsnum \<Rightarrow> jsnum" where
  "num_add (Fin x) (Fin y) = Fin (x + y)"
| "num_add NaN b = NaN"
| "num_add a NaN = NaN"
| "num_add PInf NInf = NaN"
| "num_add NInf PInf = NaN"
| "num_add PInf b = PInf"
| "num_add NInf b = NInf"
| "num_add a PInf = PInf"
| "num_add a NInf = NInf"

definition num_sub :: "jsnum \<Rightarrow> jsnum \<Rightarrow> jsnum" where
  "num_sub a b = num_add a (num_neg b)"

fun signed_inf :: "bool \<Rightarrow> jsnum" where
  "signed_inf True = PInf"
| "signed_inf False = NInf"

fun num_mul :: "jsnum \<Rightarrow> jsnum \<Rightarrow> jsnum" where
  "num_mul (Fin x) (Fin y) = Fin (x * y)"
| "num_mul NaN b = NaN"
| "num_mul a NaN = NaN"
| "num_mul PInf (Fin y) = (if y = 0 then NaN else signed_inf (0 < y))"
| "num_mul NInf (Fin y) = (if y = 0 then NaN else signed_inf (y < 0))"
| "num_mul (Fin x) PInf = (if x = 0 then NaN else signed_inf (0 < x))"
| "num_mul (Fin x) NInf = (if x = 0 then NaN else signed_inf (x < 0))"
| "num_mul PInf PInf = PInf"
| "num_mul NInf NInf = PInf"
| "num_mul PInf NInf = NInf"
| "num_mul NInf PInf = NInf"

fun num_div :: "jsnum \<Rightarrow> jsnum \<Rightarrow> jsnum" where
  "num_div (Fin x) (Fin y) =
     (if y \<noteq> 0 then Fin (x / y) else if x = 0 then NaN else signed_inf (0 < x))"
| "num_div NaN b = NaN"
| "num_div a NaN = NaN"
| "num_div (Fin x) PInf = Fin 0"
| "num_div (Fin x) NInf = Fin 0"
| "num_div PInf (Fin y) = signed_inf (0 \<le> y)"
| "num_div NInf (Fin y) = signed_inf (y < 0)"
| "num_div a b = NaN"

fun num_rem :: "jsnum \<Rightarrow> jsnum \<Rightarrow> jsnum" where
  \<comment> \<open>\<open>a % b\<close>: the remainder has the sign of the dividend\<close>
  "num_rem (Fin x) (Fin y) =
     (if y = 0 then NaN
      else Fin (x - y * (if 0 \<le> x / y then of_int \<lfloor>x / y\<rfloor> else of_int \<lceil>x / y\<rceil>)))"
| "num_rem (Fin x) PInf = Fin x"
| "num_rem (Fin x) NInf = Fin x"
| "num_rem a b = NaN"

fun Math_max :: "jsnum \<Rightarrow> jsnum \<Rightarrow> jsnum" where
  "Math_max (Fin x) (Fin y) = Fin (max x y)"
| "Math_max NaN b = NaN"
| "Math_max a NaN = NaN"
| "Math_max PInf b = PInf"
| "Math_max a PInf = PInf"
| "Math_max NInf b = b"
| "Math_max a NInf = a"

fun Math_sin :: "jsnum \<Rightarrow> jsnum" where
  "Math_sin (Fin x) = Fin (sin x)"
| "Math_sin a = NaN"

fun Math_cos :: "jsnum \<Rightarrow> jsnum" where
  "Math_cos (Fin x) = Fin (cos x)"
| "Math_cos a = NaN"

definition Math_PI :: jsnum where
  "Math_PI = Fin pi"

fun isNaN :: "jsnum \<Rightarrow> bool" where
  "isNaN NaN = True"
| "isNaN a = False"

fun num_ge :: "jsnum \<Rightarrow> jsnum \<Rightarrow> bool" where
  \<comment> \<open>\<open>a >= b\<close>: false as soon as one side is \<open>NaN\<close>\<close>
  "num_ge NaN b = False"
| "num_ge a NaN = False"
| "num_ge PInf b = True"
| "num_ge a NInf = True"
| "num_ge NInf b = False"
| "num_ge a PInf = False"
| "num_ge (Fin x) (Fin y) = (y \<le> x)"

definition num_le :: "jsnum \<Rightarrow> jsnum \<Rightarrow> bool" where
  "num_le a b = num_ge b a"

fun stringish :: "jsval \<Rightarrow> bool" where
  \<comment> \<open>the values whose ToPrimitive is a string\<close>
  "stringish (Str s) = True"
| "stringish (Arr xs) = True"
| "stringish (Obj ps) = True"
| "stringish (Builtin b) = True"
| "stringish v = False"

definition js_add :: "host \<Rightarrow> jsval \<Rightarrow> jsval \<Rightarrow> jsval" where
  \<comment> \<open>\<open>a + b\<close>: concatenation when either side is a string after ToPrimitive\<close>
  "js_add h a b =
     (if stringish a \<or> stringish b then Str (ToString h a @ ToString h b)
      else Num (num_add (ToNumber h a) (ToNumber h b)))"


section \<open>The propagation cone (DispatchMapComponent)\<close>

definition cardinalMap :: "(string \<times> jsval) list" where
  "cardinalMap =
     [(''Norte'', Num (Fin 0)), (''Noreste'', Num (Fin 45)), (''Este'', Num (Fin 90)),
      (''Sureste'', Num (Fin 135)), (''Sur'', Num (Fin 180)), (''Suroeste'', Num (Fin 225)),
      (''Oeste'', Num (Fin 270)), (''Noroeste'', Num (Fin 315))]"

definition getDegreesFromCardinal :: "host \<Rightarrow> jsval \<Rightarrow> jsval" where
  \<comment> \<open>\<open>return cardinalMap[direction] || 0\<close>; the key is \<open>ToString direction\<close>\<close>
  "getDegreesFromCardinal h direction =
     js_or (lookup cardinalMap (ToString h direction)) (Num (Fin 0))"

text \<open>
  \<open>createPropagationCone\<close>, statement by statement. \<open>Inr Null\<close> is \<open>return null\<close>,
  \<open>Inl TypeError\<close> an uncaught TypeError; the \<open>console.log\<close> calls are left out.
  The straight-line part after the second guard (from \<open>baseRadius\<close> to the returned
  object) is \<open>buildCone\<close>, a function of the seven values read before it; the source
  reads \<open>fire_propagation.direccion_aproximada\<close> in the middle of that part.
  \<open>propagationAngle\<close> is computed by the source and used nowhere.
\<close>

definition buildCone ::
  "host \<Rightarrow> jsval \<Rightarrow> jsval \<Rightarrow> jsval \<Rightarrow> jsval \<Rightarrow> jsval \<Rightarrow> jsval \<Rightarrow> jsval" where
  "buildCone h latitude longitude wind_speed_kmh wind_direction_degrees risk_level
       direccion_aproximada =
     (let baseRadius = Math_max (num_mul (ToNumber h wind_speed_kmh) (Fin 55)) (Fin 100);
          riskMultiplier =
            (if risk_level = Str ''ALTO'' then Fin 2
             else if risk_level = Str ''MEDIO'' then Fin 1.5 else Fin 1);
          coneRadius = num_mul baseRadius riskMultiplier;
          coneLength = num_mul coneRadius (Fin 2);
          propagationAngle =
            num_mul
              (num_rem (ToNumber h (js_add h wind_direction_degrees (Num (Fin 180)))) (Fin 360))
              (num_div Math_PI (Fin 180));
          coneAngle = num_div Math_PI (Fin 6);
          metersPerDegree = Fin 111000;
          origin = Arr [longitude, latitude];
          propagationDegrees = getDegreesFromCardinal h direccion_aproximada;
          mathAngle =
            num_mul (num_sub (Fin 90) (ToNumber h propagationDegrees))
                    (num_div Math_PI (Fin 180));
          cosLat = Math_cos (num_div (num_mul (ToNumber h latitude) Math_PI) (Fin 180));
          tipLat = js_add h latitude
                     (Num (num_mul (num_div coneLength metersPerDegree) (Math_sin mathAngle)));
          tipLon = js_add h longitude
                     (Num (num_div (num_mul (num_div coneLength metersPerDegree)
                                            (Math_cos mathAngle)) cosLat));
          leftAngle = num_sub mathAngle coneAngle;
          rightAngle = num_add mathAngle coneAngle;
          leftLat = js_add h latitude
                      (Num (num_mul (num_div coneLength metersPerDegree) (Math_sin leftAngle)));
          leftLon = js_add h longitude
                      (Num (num_div (num_mul (num_div coneLength metersPerDegree)
                                             (Math_cos leftAngle)) cosLat));
          rightLat = js_add h latitude
                       (Num (num_mul (num_div coneLength metersPerDegree) (Math_sin rightAngle)));
          rightLon = js_add h longitude
                       (Num (num_div (num_mul (num_div coneLength metersPerDegree)
                                              (Math_cos rightAngle)) cosLat));
          vertices = [origin, Arr [leftLon, leftLat], Arr [tipLon, tipLat],
                      Arr [rightLon, rightLat], Arr [longitude, latitude]];
          coneFeature =
            Obj [(''type'', Str ''Feature''),
                 (''properties'',
                    Obj [(''type'', Str ''fire_propagation_cone''),
                         (''wind_speed'', wind_speed_kmh),
                         (''wind_direction'', wind_direction_degrees),
                         (''risk_level'', risk_level),
                         (''propagation_direction'', direccion_aproximada)]),
                 (''geometry'',
                    Obj [(''type'', Str ''Polygon''),
                         (''coordinates'', Arr [Arr vertices])])]
      in Obj [(''type'', Str ''FeatureCollection''), (''features'', Arr [coneFeature])])"

definition createPropagationCone :: "host \<Rightarrow> jsval \<Rightarrow> error + jsval" where
  "createPropagationCone h incidentData =
    (if \<not> truthy (opt_get (opt_get incidentData ''weather_analysis'') ''found'')
        \<or> \<not> truthy (opt_get (opt_get incidentData ''weather_analysis'') ''current_conditions'')
     then Inr Null
     else
       thenE (get incidentData ''weather_analysis'') (\<lambda>weather_analysis.
       thenE (get weather_analysis ''current_conditions'') (\<lambda>current_conditions.
       thenE (get weather_analysis ''fire_propagation'') (\<lambda>fire_propagation.
       thenE (get incidentData ''coordinates'') (\<lambda>coordinates.
       thenE (get coordinates ''latitude'') (\<lambda>latitude.
       thenE (get coordinates ''longitude'') (\<lambda>longitude.
       thenE (get (js_or current_conditions (Obj [])) ''wind_speed_kmh'') (\<lambda>wind_speed_kmh.
       thenE (get (js_or current_conditions (Obj [])) ''wind_direction_degrees'')
         (\<lambda>wind_direction_degrees.
       thenE (get (js_or fire_propagation (Obj [])) ''risk_level'') (\<lambda>risk_level.
       if \<not> truthy wind_speed_kmh \<or> \<not> truthy wind_direction_degrees \<or> \<not> truthy risk_level
       then Inr Null
       else
         thenE (get fire_propagation ''direccion_aproximada'') (\<lambda>direccion_aproximada.
         Inr (buildCone h latitude longitude wind_speed_kmh wind_direction_degrees
                risk_level direccion_aproximada))))))))))))"

text \<open>The fields of an incident that the function reads, as safe paths (\<open>a?.b?.c\<close>).\<close>

definition path :: "jsval \<Rightarrow> string list \<Rightarrow> jsval" where
  "path v ks = foldl opt_get v ks"

text \<open>What the map layer reads from a cone: the rings of its first feature's polygon.\<close>

definition features :: "jsval \<Rightarrow> jsval list" where
  "features fc = (case opt_get fc ''features'' of Arr fs \<Rightarrow> fs | _ \<Rightarrow> [])"

definition rings :: "jsval \<Rightarrow> jsval list" where
  "rings feature =
     (case path feature [''geometry'', ''coordinates''] of Arr rs \<Rightarrow> rs | _ \<Rightarrow> [])"

definition positions :: "jsval \<Rightarrow> jsval list" where
  "positions ring = (case ring of Arr ps \<Rightarrow> ps | _ \<Rightarrow> [])"

definition outer_ring :: "jsval \<Rightarrow> jsval list" where
  "outer_ring fc =
     (case features fc of [] \<Rightarrow> [] | f # fs \<Rightarrow>
        (case rings f of [] \<Rightarrow> [] | r # rs \<Rightarrow> positions r))"

text \<open>
  A host for the examples. Their numeric fields are numbers, so its conversions are never
  consulted. Strings are byte strings (UTF-8); its \<open>toUpperCase\<close> turns the ASCII letters
  and U+0131 (the bytes C4 B1) into upper case, its \<open>toLowerCase\<close> the ASCII letters into
  lower case, and both leave every other byte as it is.
\<close>

definition lower_letters :: string where
  "lower_letters = ''abcdefghijklmnopqrstuvwxyz''"

definition upper_letters :: string where
  "upper_letters = ''ABCDEFGHIJKLMNOPQRSTUVWXYZ''"

definition upper_letter :: "char \<Rightarrow> char" where
  "upper_letter c =
     (case map_of (zip lower_letters upper_letters) c of Some u \<Rightarrow> u | None \<Rightarrow> c)"

definition lower_letter :: "char \<Rightarrow> char" where
  "lower_letter c =
     (case map_of (zip upper_letters lower_letters) c of Some l \<Rightarrow> l | None \<Rightarrow> c)"

fun upper_bytes :: "string \<Rightarrow> string" where
  "upper_bytes [] = []"
| "upper_bytes [c] = [upper_letter c]"
| "upper_bytes (c # d # s) =
     (if c = CHR 0xC4 \<and> d = CHR 0xB1 then CHR ''I'' # upper_bytes s
      else upper_letter c # upper_bytes (d # s))"

definition host0 :: host where
  "host0 = \<lparr>ToNumber_ext = (\<lambda>v. NaN), ToString_ext = (\<lambda>v. []), parseFloat = (\<lambda>s. NaN),
             toUpperCase = upper_bytes, toLowerCase = map lower_letter\<rparr>"


section \<open>The incident client (app/apis/incendios.ts)\<close>

subsection \<open>Status and priority tables\<close>

text \<open>
  \<open>table[v?.toUpperCase()]\<close>: the property key read from the table. \<open>undefined\<close> and
  \<open>null\<close> skip the call and the key is the string \<open>undefined\<close>; a string is converted; on
  any other value \<open>toUpperCase\<close> is not a function and the call throws. The conversion
  itself is the host's.
\<close>

fun upper_key :: "host \<Rightarrow> jsval \<Rightarrow> error + string" where
  "upper_key h Undefined = Inr ''undefined''"
| "upper_key h Null = Inr ''undefined''"
| "upper_key h (Str s) = Inr (toUpperCase h s)"
| "upper_key h v = Inl TypeError"


definition backendStatusMap :: "(string \<times> jsval) list" where
  "backendStatusMap =
     [(''DECLARADO'', Str ''activo''), (''EN_COMBATE'', Str ''activo''),
      (''CONTROLADO'', Str ''controlado''), (''EXTINGUIDO'', Str ''extinguido''),
      (''CANCELADO'', Str ''cancelado'')]"

definition transformBackendStatus :: "host \<Rightarrow> jsval \<Rightarrow> error + jsval" where
  "transformBackendStatus h backendStatus =
     thenE (upper_key h backendStatus)
       (\<lambda>k. Inr (js_or (lookup backendStatusMap k) (Str ''activo'')))"

definition backendPriorityMap :: "(string \<times> jsval) list" where
  "backendPriorityMap =
     [(''BAJA'', Str ''baja''), (''MEDIA'', Str ''media''), (''ALTA'', Str ''alta''),
      (''CRITICA'', Str ''critica'')]"

definition transformBackendPriority :: "host \<Rightarrow> jsval \<Rightarrow> error + jsval" where
  "transformBackendPriority h backendPriority =
     thenE (upper_key h backendPriority)
       (\<lambda>k. Inr (js_or (lookup backendPriorityMap k) (Str ''media'')))"





definition estados :: "jsval set" where
  "estados = {Str ''activo'', Str ''controlado'', Str ''extinguido'', Str ''cancelado''}"

definition prioridades :: "jsval set" where
  "prioridades = {Str ''baja'', Str ''media'', Str ''alta'', Str ''critica''}"

subsection \<open>Incident records\<close>

record incendio =
  id' :: jsval
  nombre :: jsval
  descripcion :: jsval
  latitud :: jsval
  longitud :: jsval
  fecha_deteccion :: jsval
  fecha_declaracion :: jsval
  estado :: jsval
  prioridad :: jsval
  superficie_afectada :: jsval
  causa :: jsval
  recursos_asignados :: jsval
  observaciones :: jsval
  created_at :: jsval
  updated_at :: jsval

text \<open>
  The object literal that \<open>getIncendios\<close> builds for each item and \<open>getIncendio\<close> for
  its one item (the same text twice in the source). \<open>now\<close> is what
  \<open>new Date().toISOString()\<close> returns.
\<close>

definition toIncendio :: "host \<Rightarrow> string \<Rightarrow> jsval \<Rightarrow> error + incendio" where
  "toIncendio h now item =
     thenE (get item ''id_incendio'') (\<lambda>id_incendio.
     thenE (get item ''nombre'') (\<lambda>nombre.
     thenE (get item ''descripcion'') (\<lambda>descripcion.
     thenE (get item ''latitude'') (\<lambda>latitude.
     thenE (get item ''longitude'') (\<lambda>longitude.
     thenE (get item ''created_at'') (\<lambda>created.
     thenE (get item ''estado'') (\<lambda>item_estado.
     thenE (transformBackendStatus h item_estado) (\<lambda>est.
     thenE (get item ''prioridad'') (\<lambda>item_prioridad.
     thenE (transformBackendPriority h item_prioridad) (\<lambda>pri.
     thenE (get item ''superficie_afectada'') (\<lambda>superficie.
     thenE (get item ''causa'') (\<lambda>item_causa.
     thenE (get item ''recursos_asignados'') (\<lambda>recursos.
     thenE (get item ''observaciones'') (\<lambda>item_observaciones.
     thenE (get item ''updated_at'') (\<lambda>updated.
     Inr \<lparr>id' = id_incendio,
          nombre = nombre,
          descripcion = js_or descripcion (Str []),
          latitud = latitude,
          longitud = longitude,
          fecha_deteccion = js_or created (Str now),
          fecha_declaracion = js_or created (Str now),
          estado = est,
          prioridad = pri,
          superficie_afectada = js_or superficie Null,
          causa = js_or item_causa Null,
          recursos_asignados = js_or recursos (Arr []),
          observaciones = js_or item_observaciones Null,
          created_at = js_or created (Str now),
          updated_at = js_or updated (Str now)\<rparr>)))))))))))))))"

fun mapE :: "('a \<Rightarrow> error + 'b) \<Rightarrow> 'a list \<Rightarrow> error + 'b list" where
  "mapE f [] = Inr []"
| "mapE f (x # xs) = thenE (f x) (\<lambda>y. thenE (mapE f xs) (\<lambda>ys. Inr (y # ys)))"

subsection \<open>Requests\<close>

text \<open>
  The incident service is not part of the repository. It is a parameter: a transition
  function from its state and a request to the response body (or a rejection, as axios
  raises on a failed request or a status outside 2xx) and its next state. Every request
  the client sends is recorded in order. A target stands for the URL the source builds
  from the same parts.
\<close>

datatype target =
    Incendios "(string \<times> jsval) list"
  | Incendios_declarar
  | Incendio jsval
  | Incendio_estado jsval jsval
  | Incendio_prioridad jsval jsval

datatype http_method = GET | POST | PUT | PATCH

record request =
  meth :: http_method
  url :: target
  body :: jsval
  authorization :: "string option"

type_synonym 's backend = "'s \<Rightarrow> request \<Rightarrow> (error + jsval) \<times> 's"

record 's world =
  server :: 's
  sent :: "request list"

definition bearer :: "string option \<Rightarrow> string option" where
  \<comment> \<open>\<open>accessToken ? { Authorization: `Bearer ${accessToken}` } : {}\<close>\<close>
  "bearer accessToken =
     (case accessToken of None \<Rightarrow> None
      | Some t \<Rightarrow> if t = [] then None else Some (''Bearer '' @ t))"

definition send :: "'s backend \<Rightarrow> request \<Rightarrow> 's world \<Rightarrow> (error + jsval) \<times> 's world" where
  "send be req w =
     (case be (server w) req of
        (r, s') \<Rightarrow> (r, \<lparr>server = s', sent = sent w @ [req]\<rparr>))"

text \<open>\<open>filters?: IIncendioFilters\<close> is an object or \<open>undefined\<close>.\<close>

definition filter_field :: "(string \<times> jsval) list option \<Rightarrow> string \<Rightarrow> jsval" where
  \<comment> \<open>\<open>filters?.k\<close>\<close>
  "filter_field filters k = (case filters of None \<Rightarrow> Undefined | Some ps \<Rightarrow> lookup ps k)"

definition params_of :: "(string \<times> jsval) list option \<Rightarrow> (string \<times> jsval) list" where
  \<comment> \<open>\<open>if (filters?.k) params.append(k, filters.k)\<close>, key by key\<close>
  "params_of filters =
     filter (\<lambda>(k, v). truthy v)
       (map (\<lambda>k. (k, filter_field filters k))
          [''estado'', ''prioridad'', ''fecha_desde'', ''fecha_hasta'', ''search'',
           ''page'', ''limit''])"

record incendios_page =
  data :: "incendio list"
  total' :: nat
  page :: jsval
  limit :: jsval

definition getIncendios ::
  "host \<Rightarrow> 's backend \<Rightarrow> string \<Rightarrow> (string \<times> jsval) list option \<Rightarrow> string option
     \<Rightarrow> 's world \<Rightarrow> (error + incendios_page) \<times> 's world" where
  "getIncendios h be now filters accessToken w =
     (case send be \<lparr>meth = GET, url = Incendios (params_of filters), body = Undefined,
                    authorization = bearer accessToken\<rparr> w of
        (r, w') \<Rightarrow>
          (thenE r (\<lambda>response_data.
             thenE (case response_data of Arr items \<Rightarrow> mapE (toIncendio h now) items
                    | _ \<Rightarrow> Inl TypeError)
               (\<lambda>transformedData.
                  Inr \<lparr>data = transformedData,
                       total' = length transformedData,
                       page = js_or (filter_field filters ''page'') (Num (Fin 1)),
                       limit = js_or (filter_field filters ''limit'') (Num (Fin 10))\<rparr>)),
           w'))"

definition getIncendio ::
  "host \<Rightarrow> 's backend \<Rightarrow> string \<Rightarrow> jsval \<Rightarrow> string option \<Rightarrow> 's world
     \<Rightarrow> (error + incendio) \<times> 's world" where
  "getIncendio h be now ident accessToken w =
     (case send be \<lparr>meth = GET, url = Incendio ident, body = Undefined,
                    authorization = bearer accessToken\<rparr> w of
        (r, w') \<Rightarrow> (thenE r (toIncendio h now), w'))"



text \<open>
  \<open>declareIncendio\<close> posts to \<open>/incendios/declarar\<close>, fetches the incident the response
  names, and returns it with the two analyses of the POST response
  (\<open>brigade_analysis'\<close>: the plain name is a variable of the dispatch map below).
\<close>

record declared_incendio =
  incendio :: incendio
  spatial_analysis :: jsval
  brigade_analysis' :: jsval







section \<open>The dispatch map (DispatchMapComponent)\<close>

text \<open>
  The component's state, as far as the two handlers below read or write it, and what
  they do to the outside: the alerts shown, the camera moves asked of the map, the
  tooltip timers started, and the declarations posted.
\<close>

datatype alert = Coordenadas_invalidas | Error_al_declarar

record placemark_t =
  latitude :: jsnum
  longitude :: jsnum

record declare_request =
  post_longitude :: jsnum
  post_latitude :: jsnum
  post_nombre :: string

record dispatch =
  placemark :: placemark_t
  coordinateInput :: "string \<times> string"
  showEnhancedSearch :: bool
  showTooltip :: bool
  showDrawer :: bool
  incendioData :: jsval
  isSubmitting :: bool
  incidentDeclared :: bool
  propagationCone :: jsval
  alerts :: "alert list"
  camera :: "(jsnum \<times> jsnum \<times> nat) list"
  tooltipTimers :: nat
  declarations :: "declare_request list"

text \<open>
  \<open>handleCoordinateSubmit\<close>. The pair \<open>coordinateInput\<close> is (latitude text, longitude
  text); \<open>has_map\<close> says whether \<open>mapRef.current?.getMap()\<close> is there. The timer's
  callback (\<open>setShowTooltip(true)\<close> after 100 ms) runs later and is only counted.
\<close>

definition handleCoordinateSubmit :: "host \<Rightarrow> bool \<Rightarrow> dispatch \<Rightarrow> dispatch" where
  "handleCoordinateSubmit h has_map s =
     (let lat = parseFloat h (fst (coordinateInput s));
          lng = parseFloat h (snd (coordinateInput s))
      in if \<not> isNaN lat \<and> \<not> isNaN lng \<and> num_ge lat (Fin (- 90)) \<and> num_le lat (Fin 90)
            \<and> num_ge lng (Fin (- 180)) \<and> num_le lng (Fin 180)
         then s\<lparr>placemark := \<lparr>latitude = lat, longitude = lng\<rparr>,
                camera := (if has_map then camera s @ [(lng, lat, 15)] else camera s),
                coordinateInput := ([], []),
                showEnhancedSearch := False,
                showTooltip := False,
                tooltipTimers := tooltipTimers s + 1\<rparr>
         else s\<lparr>alerts := alerts s @ [Coordenadas_invalidas]\<rparr>)"

text \<open>
  What \<open>await fetch(...)\<close> gives: a rejection, or a response with its \<open>ok\<close> flag, its
  status and the outcome of \<open>response.json()\<close>.
\<close>

datatype fetch_outcome = Rejected | Response bool nat "error + jsval"

text \<open>
  \<open>handleDeclareIncident\<close>. \<open>date\<close> and \<open>rnd\<close> are the two environment readings in the
  incident's name (the ISO date and \<open>Math.floor(Math.random() * 1000)\<close>); \<open>outcome\<close> is
  what the one \<open>fetch\<close> of the call gives. \<open>declare_try\<close> is the \<open>try\<close> block: the state
  it reached and the error it threw, if any. Its second \<open>console.log\<close> reads
  \<open>data.brigade_analysis\<close>, which throws when the response is \<open>null\<close>.
\<close>

definition declare_try :: "host \<Rightarrow> fetch_outcome \<Rightarrow> dispatch \<Rightarrow> dispatch \<times> error option" where
  "declare_try h outcome s =
     (case outcome of
        Rejected \<Rightarrow> (s, Some FetchRejected)
      | Response ok status json \<Rightarrow>
          if \<not> ok then (s, Some HttpError)
          else (case json of
                  Inl e \<Rightarrow> (s, Some e)
                | Inr d \<Rightarrow>
                    (case get d ''brigade_analysis'' of
                       Inl e \<Rightarrow> (s, Some e)
                     | Inr brigade_analysis \<Rightarrow>
                         (let s1 = s\<lparr>incendioData := d, incidentDeclared := True\<rparr>
                          in case createPropagationCone h d of
                               Inl e \<Rightarrow> (s1, Some e)
                             | Inr cone \<Rightarrow>
                                 (let s2 = (if truthy cone then s1\<lparr>propagationCone := cone\<rparr>
                                            else s1)
                                  in (s2\<lparr>showTooltip := False, showDrawer := True\<rparr>,
                                      None))))))"

definition handleDeclareIncident ::
  "host \<Rightarrow> string \<Rightarrow> string \<Rightarrow> fetch_outcome \<Rightarrow> dispatch \<Rightarrow> dispatch" where
  "handleDeclareIncident h date rnd outcome s =
     (let s0 = s\<lparr>isSubmitting := True\<rparr>;
          s1 = s0\<lparr>declarations := declarations s0 @
                  [\<lparr>post_longitude = longitude (placemark s0),
                    post_latitude = latitude (placemark s0),
                    post_nombre = ''Incendio_'' @ date @ ''_'' @ rnd\<rparr>]\<rparr>
      in case declare_try h outcome s1 of
           (s2, thrown) \<Rightarrow>
             (let s3 = (case thrown of
                          None \<Rightarrow> s2
                        | Some e \<Rightarrow> s2\<lparr>alerts := alerts s2 @ [Error_al_declarar]\<rparr>)
              in s3\<lparr>isSubmitting := False\<rparr>))"

text \<open>
  The two conditions the specification words for these handlers. The text inputs are in
  range when both parse to numbers, the latitude within \<open>[-90, 90]\<close> and the longitude
  within \<open>[-180, 180]\<close>; the declaration fails when the \<open>fetch\<close> rejects or the
  response is not ok.
\<close>

definition coordinates_in_range :: "host \<Rightarrow> string \<times> string \<Rightarrow> bool" where
  "coordinates_in_range h txt =
     (case (parseFloat h (fst txt), parseFloat h (snd txt)) of
        (Fin x, Fin y) \<Rightarrow> - 90 \<le> x \<and> x \<le> 90 \<and> - 180 \<le> y \<and> y \<le> 180
      | _ \<Rightarrow> False)"

fun post_fails :: "fetch_outcome \<Rightarrow> bool" where
  "post_fails Rejected = True"
| "post_fails (Response ok status json) = (\<not> ok)"

section \<open>Layer loading (MapComponent)\<close>

datatype layer_type =
    Point_enhanced | Water_polygons | Priority_polygons | Road_network
  | Administrative_regions | Electrical_system

text \<open>A layer descriptor; its display name and colour play no part in loading.\<close>

record layer_config =
  layer_id :: string
  layer_file :: string
  layer_enabled :: bool
  layer_type :: layer_type

definition LAYER_CONFIGS :: "layer_config list" where
  "LAYER_CONFIGS =
     [\<lparr>layer_id = ''centrales-enhanced'',
       layer_file = ''/recursos_actualizados_centrales_point_enhanced.geojson'',
       layer_enabled = True, layer_type = Point_enhanced\<rparr>,
      \<lparr>layer_id = ''zonasur-activas'',
       layer_file = ''/recursos_actualizados_zonasur_activas.geojson'',
       layer_enabled = True, layer_type = Point_enhanced\<rparr>,
      \<lparr>layer_id = ''hidro-poligonos'', layer_file = ''/hidro_polig_multipolygon.geojson'',
       layer_enabled = True, layer_type = Water_polygons\<rparr>,
      \<lparr>layer_id = ''golpe-unico'', layer_file = ''/golpe_unico.geojson'',
       layer_enabled = True, layer_type = Priority_polygons\<rparr>,
      \<lparr>layer_id = ''red-vial'', layer_file = ''/red_vial_valparaiso.geojson'',
       layer_enabled = True, layer_type = Road_network\<rparr>,
      \<lparr>layer_id = ''comunas-administrativas'',
       layer_file = ''/comunas_administrativas.geojson'',
       layer_enabled = False, layer_type = Administrative_regions\<rparr>,
      \<lparr>layer_id = ''sistema-electrico'', layer_file = ''/sistema_electrico.geojson'',
       layer_enabled = False, layer_type = Electrical_system\<rparr>]"

record layers_state =
  layerData :: "string \<rightharpoonup> jsval"
  enhancedLayers :: "string \<rightharpoonup> jsval"
  loadedLayers :: "string set"
  fetched :: "string list"

text \<open>
  What one call meets outside the component: the outcome of fetching a file, and the
  six layer builders of \<open>lib/map-layers\<close> (selected by the descriptor's type), which
  throw on data without the shape they expect.
\<close>

record layer_env =
  fetch_file :: "string \<Rightarrow> fetch_outcome"
  createLayers :: "layer_type \<Rightarrow> jsval \<Rightarrow> string \<Rightarrow> error + jsval"

text \<open>
  \<open>loadLayerData\<close> is made by \<open>useCallback(..., [layerData])\<close>: the \<open>layerData\<close> its
  guard reads is the object of the render that made this instance of the callback
  (\<open>captured\<close>), while the three setters update the state of the moment
  (\<open>setLayerData(prev => ...)\<close>). An instance made by the latest render has
  \<open>captured = layerData s\<close>. The keys read are layer ids of \<open>LAYER_CONFIGS\<close>, none of
  which names an inherited property, so \<open>layerData[layerId]\<close> is \<open>undefined\<close> exactly
  when the object has no such key.
\<close>

definition loadLayerData ::
  "layer_env \<Rightarrow> (string \<rightharpoonup> jsval) \<Rightarrow> string \<Rightarrow> layers_state \<Rightarrow> layers_state" where
  "loadLayerData env captured layerId s =
     (case find (\<lambda>c. layer_id c = layerId) LAYER_CONFIGS of
        None \<Rightarrow> s
      | Some config \<Rightarrow>
          if truthy (case captured layerId of None \<Rightarrow> Undefined | Some v \<Rightarrow> v) then s
          else
            (let s1 = s\<lparr>fetched := fetched s @ [layer_file config]\<rparr>
             in case fetch_file env (layer_file config) of
                  Rejected \<Rightarrow> s1
                | Response ok status json \<Rightarrow>
                    if \<not> ok then s1
                    else (case json of
                            Inl e \<Rightarrow> s1
                          | Inr d \<Rightarrow>
                              (let s2 = s1\<lparr>layerData := (layerData s1)(layerId \<mapsto> d)\<rparr>
                               in case createLayers env (layer_type config) d (layer_id config) of
                                    Inl e \<Rightarrow> s2
                                  | Inr createdLayers \<Rightarrow>
                                      s2\<lparr>enhancedLayers :=
                                            (enhancedLayers s2)(layerId \<mapsto> createdLayers),
                                         loadedLayers := insert layerId (loadedLayers s2)\<rparr>))))"

section \<open>Sample data\<close>

text \<open>
  The response of the repository's test \<open>should create propagation cone with complete
  weather data\<close>, cut down to the fields the cone reads, and variations of it.
\<close>

definition weather_of :: "jsval \<Rightarrow> jsval \<Rightarrow> jsval \<Rightarrow> jsval" where
  "weather_of speed degrees direccion =
     Obj [(''found'', Bool True),
          (''current_conditions'',
             Obj [(''wind_speed_kmh'', speed), (''wind_direction_degrees'', degrees),
                  (''wind_direction_cardinal'', Str ''Oeste'')]),
          (''fire_propagation'',
             Obj [(''direccion_aproximada'', direccion), (''risk_level'', Str ''MEDIO''),
                  (''risk_description'', Str ''Condiciones moderadas'')])]"

definition valparaiso :: jsval where
  "valparaiso =
     Obj [(''latitude'', Num (Fin (- 33.0472))), (''longitude'', Num (Fin (- 71.6127)))]"

definition incident_este :: jsval where
  "incident_este =
     Obj [(''coordinates'', valparaiso),
          (''weather_analysis'', weather_of (Num (Fin 30)) (Num (Fin 270)) (Str ''Este''))]"

definition incident_este_sector :: jsval where
  "incident_este_sector =
     Obj [(''sector_info'', Obj [(''found'', Bool False)]),
          (''coordinates'', valparaiso),
          (''weather_analysis'', weather_of (Num (Fin 30)) (Num (Fin 270)) (Str ''Este''))]"

definition incident_oeste :: jsval where
  "incident_oeste =
     Obj [(''coordinates'', valparaiso),
          (''weather_analysis'', weather_of (Num (Fin 30)) (Num (Fin 270)) (Str ''Oeste''))]"

definition incident_no_coordinates :: jsval where
  "incident_no_coordinates =
     Obj [(''weather_analysis'', weather_of (Num (Fin 30)) (Num (Fin 270)) (Str ''Este''))]"

definition incident_calm :: jsval where
  "incident_calm =
     Obj [(''coordinates'', valparaiso),
          (''weather_analysis'', weather_of (Num (Fin 0)) (Num (Fin 270)) (Str ''Este''))]"

definition incident_north_wind :: jsval where
  "incident_north_wind =
     Obj [(''coordinates'', valparaiso),
          (''weather_analysis'', weather_of (Num (Fin 30)) (Num (Fin 0)) (Str ''Sur''))]"

definition incident_constructor :: jsval where
  "incident_constructor =
     Obj [(''coordinates'', valparaiso),
          (''weather_analysis'',
             weather_of (Num (Fin 30)) (Num (Fin 270)) (Str ''constructor''))]"

text \<open>
  An incident service for the examples. Its state is the one record it holds. A GET
  answers with that record (in a list for the collection); a POST stores a record made
  from the payload and answers with another body, which carries a spatial analysis; a PUT
  and a PATCH store what they are sent and answer with \<open>null\<close>.
\<close>

definition service :: "jsval backend" where
  "service s req =
     (case meth req of
        GET \<Rightarrow> (case url req of Incendios ps \<Rightarrow> (Inr (Arr [s]), s) | _ \<Rightarrow> (Inr s, s))
      | POST \<Rightarrow>
          (Inr (Obj [(''id_incendio'', Num (Fin 7)), (''nombre'', Str ''POST''),
                     (''estado'', Str ''EXTINGUIDO''), (''prioridad'', Str ''BAJA''),
                     (''spatial_analysis'', Obj [(''found'', Bool True)])]),
           Obj [(''id_incendio'', Num (Fin 7)), (''nombre'', opt_get (body req) ''nombre''),
                (''estado'', opt_get (body req) ''estado''),
                (''prioridad'', opt_get (body req) ''prioridad'')])
      | PUT \<Rightarrow>
          (Inr Null,
           Obj [(''id_incendio'', Num (Fin 7)), (''nombre'', opt_get (body req) ''nombre''),
                (''estado'', opt_get (body req) ''estado''),
                (''prioridad'', opt_get (body req) ''prioridad'')])
      | PATCH \<Rightarrow>
          (Inr Null,
           (case url req of
              Incendio_estado i e \<Rightarrow>
                Obj [(''id_incendio'', i), (''nombre'', opt_get s ''nombre''), (''estado'', e),
                     (''prioridad'', opt_get s ''prioridad'')]
            | Incendio_prioridad i p \<Rightarrow>
                Obj [(''id_incendio'', i), (''nombre'', opt_get s ''nombre''),
                     (''estado'', opt_get s ''estado''), (''prioridad'', p)]
            | _ \<Rightarrow> s)))"

definition stored :: jsval where
  "stored =
     Obj [(''id_incendio'', Num (Fin 7)), (''nombre'', Str ''Quebrada''),
          (''estado'', Str ''en_combate''), (''prioridad'', Str ''urgente'')]"

text \<open>Two strings a backend may send, spelt with U+0131 (the dotless i).\<close>

definition extinguido_dotless :: string where
  "extinguido_dotless =
     ''ext'' @ [CHR 0xC4, CHR 0xB1] @ ''ngu'' @ [CHR 0xC4, CHR 0xB1] @ ''do''"

definition critica_dotless :: string where
  "critica_dotless = ''cr'' @ [CHR 0xC4, CHR 0xB1] @ ''t'' @ [CHR 0xC4, CHR 0xB1] @ ''ca''"

definition world0 :: "jsval world" where
  "world0 = \<lparr>server = stored, sent = []\<rparr>"


text \<open>
  The dispatch map as it is first rendered, and a host that parses the coordinate texts
  of the repository's tests.
\<close>

definition dispatch0 :: dispatch where
  "dispatch0 =
     \<lparr>placemark = \<lparr>latitude = Fin (- 33.0472), longitude = Fin (- 71.6127)\<rparr>,
      coordinateInput = ([], []),
      showEnhancedSearch = False,
      showTooltip = True,
      showDrawer = False,
      incendioData = Null,
      isSubmitting = False,
      incidentDeclared = False,
      propagationCone = Null,
      alerts = [],
      camera = [],
      tooltipTimers = 0,
      declarations = []\<rparr>"

definition host1 :: host where
  "host1 =
     host0\<lparr>parseFloat :=
       (\<lambda>s. if s = ''-33.0472'' then Fin (- 33.0472)
            else if s = ''-71.6127'' then Fin (- 71.6127)
            else if s = ''-20.5'' then Fin (- 20.5)
            else if s = ''91'' then Fin 91
            else if s = ''181'' then Fin 181
            else NaN)\<rparr>"

text \<open>
  Three GeoJSON documents, and the outside of a call of \<open>loadLayerData\<close> in which every
  file holds the given document and the layer builders succeed.
\<close>

definition centrales :: jsval where
  "centrales = Obj [(''type'', Str ''FeatureCollection''), (''features'', Arr [])]"

definition zonasur1 :: jsval where
  "zonasur1 =
     Obj [(''type'', Str ''FeatureCollection''),
          (''features'', Arr [Obj [(''type'', Str ''Feature'')]])]"

definition zonasur2 :: jsval where
  "zonasur2 =
     Obj [(''type'', Str ''FeatureCollection''),
          (''features'', Arr [Obj [(''type'', Str ''Feature'')], Obj [(''type'', Str ''Feature'')]])]"

definition serving :: "jsval \<Rightarrow> layer_env" where
  "serving document =
     \<lparr>fetch_file = (\<lambda>f. Response True 200 (Inr document)),
      createLayers = (\<lambda>t d i. Inr (Arr []))\<rparr>"

definition layers0 :: layers_state where
  "layers0 =
     \<lparr>layerData = Map.empty, enhancedLayers = Map.empty, loadedLayers = {}, fetched = []\<rparr>"

text \<open>
  The mount effect's loop, run with the callback of the first render (whose \<open>layerData\<close>
  is empty): it loads the first enabled layer, then the second.
\<close>

definition layers1 :: layers_state where
  "layers1 = loadLayerData (serving centrales) Map.empty ''centrales-enhanced'' layers0"

definition layers2 :: layers_state where
  "layers2 = loadLayerData (serving zonasur1) Map.empty ''zonasur-activas'' layers1"

section \<open>Properties of the propagation cone\<close>

subsection \<open>Reading fields\<close>

lemma get_nonnullish: "\<not> nullish v \<Longrightarrow> get v k = Inr (opt_get v k)"
  by (cases v) (simp_all add: opt_get_def)

lemma get_nullish: "nullish v \<Longrightarrow> get v k = Inl TypeError"
  by (cases v) simp_all

lemma opt_get_falsy:
  "\<not> truthy v \<Longrightarrow> k \<notin> set Object_prototype \<Longrightarrow> opt_get v k = Undefined"
  by (cases v) (simp_all add: opt_get_def inherited_def)

lemma truthy_not_nullish: "truthy v \<Longrightarrow> \<not> nullish v"
  by (cases v) simp_all

subsection \<open>The three outcomes\<close>

text \<open>
  The function in terms of the safe paths of its argument. It returns \<open>null\<close> when the
  first guard fails; past it, it throws when \<open>coordinates\<close> is \<open>undefined\<close> or \<open>null\<close>
  (the destructuring of line 1972, which precedes the second guard); otherwise it returns
  \<open>null\<close> when one of the three required fields is falsy, and the cone when none is.
\<close>

lemma createPropagationCone_char:
  "createPropagationCone h d =
    (if \<not> truthy (path d [''weather_analysis'', ''found''])
        \<or> \<not> truthy (path d [''weather_analysis'', ''current_conditions''])
     then Inr Null
     else if nullish (path d [''coordinates'']) then Inl TypeError
     else if \<not> truthy (path d [''weather_analysis'', ''current_conditions'', ''wind_speed_kmh''])
           \<or> \<not> truthy (path d [''weather_analysis'', ''current_conditions'',
                                ''wind_direction_degrees''])
           \<or> \<not> truthy (path d [''weather_analysis'', ''fire_propagation'', ''risk_level''])
     then Inr Null
     else Inr (buildCone h (path d [''coordinates'', ''latitude''])
                 (path d [''coordinates'', ''longitude''])
                 (path d [''weather_analysis'', ''current_conditions'', ''wind_speed_kmh''])
                 (path d [''weather_analysis'', ''current_conditions'',
                          ''wind_direction_degrees''])
                 (path d [''weather_analysis'', ''fire_propagation'', ''risk_level''])
                 (path d [''weather_analysis'', ''fire_propagation'',
                          ''direccion_aproximada''])))"
proof -
  let ?wa = "opt_get d ''weather_analysis''"
  let ?cc = "opt_get ?wa ''current_conditions''"
  let ?fp = "opt_get ?wa ''fire_propagation''"
  let ?co = "opt_get d ''coordinates''"
  show ?thesis
  proof (cases "truthy (opt_get ?wa ''found'') \<and> truthy ?cc")
    case False
    then show ?thesis by (auto simp: createPropagationCone_def path_def)
  next
    case True
    have wa: "\<not> nullish ?wa" using True by (cases ?wa) (auto simp: opt_get_def)
    have d: "\<not> nullish d" using wa by (cases d) (auto simp: opt_get_def)
    have cc: "\<not> nullish ?cc" using True by (simp add: truthy_not_nullish)
    have or_cc: "js_or ?cc (Obj []) = ?cc" using True by (simp add: js_or_def)
    have risk: "get (js_or ?fp (Obj [])) ''risk_level'' = Inr (opt_get ?fp ''risk_level'')"
    proof (cases "truthy ?fp")
      case True
      then show ?thesis by (simp add: js_or_def get_nonnullish truthy_not_nullish)
    next
      case False
      then show ?thesis
        by (simp add: js_or_def opt_get_falsy Object_prototype_def lookup_def inherited_def)
    qed
    have fp: "truthy (opt_get ?fp ''risk_level'') \<Longrightarrow> \<not> nullish ?fp"
      by (cases ?fp) (auto simp: opt_get_def)
    show ?thesis
    proof (cases "nullish ?co")
      case co: True
      show ?thesis using True co
        by (simp add: createPropagationCone_def path_def thenE_def get_nonnullish d wa
              get_nullish)
    next
      case co: False
      show ?thesis using True co fp
        by (simp add: createPropagationCone_def path_def thenE_def get_nonnullish d wa cc
              or_cc risk)
    qed
  qed
qed

lemma buildCone_not_Null: "buildCone h la lo ws wd r dir \<noteq> Null"
  by (simp add: buildCone_def Let_def)

lemma cone_returned:
  assumes "createPropagationCone h d = Inr c" and "c \<noteq> Null"
  shows "c = buildCone h (path d [''coordinates'', ''latitude''])
                 (path d [''coordinates'', ''longitude''])
                 (path d [''weather_analysis'', ''current_conditions'', ''wind_speed_kmh''])
                 (path d [''weather_analysis'', ''current_conditions'',
                          ''wind_direction_degrees''])
                 (path d [''weather_analysis'', ''fire_propagation'', ''risk_level''])
                 (path d [''weather_analysis'', ''fire_propagation'',
                          ''direccion_aproximada''])"
  using assms unfolding createPropagationCone_char by (auto split: if_splits)

lemma cone_null_on_zero_wind:
  assumes "\<not> nullish (path d [''coordinates''])"
    and "path d [''weather_analysis'', ''current_conditions'', ''wind_speed_kmh''] = Num (Fin 0)
         \<or> path d [''weather_analysis'', ''current_conditions'', ''wind_direction_degrees'']
             = Num (Fin 0)"
  shows "createPropagationCone h d = Inr Null"
  using assms unfolding createPropagationCone_char by auto

lemmas cone_eval =
  createPropagationCone_char path_def opt_get_def lookup_def inherited_def Object_prototype_def

lemmas weather_defs = weather_of_def valparaiso_def

lemmas build_eval =
  buildCone_def Let_def js_or_def getDegreesFromCardinal_def cardinalMap_def lookup_def
  inherited_def Object_prototype_def js_add_def num_sub_def Math_PI_def sin_30 cos_30

lemmas ring_eval = outer_ring_def features_def rings_def positions_def path_def opt_get_def

lemma calm_returns_null: "createPropagationCone host0 incident_calm = Inr Null"
  by (rule cone_null_on_zero_wind)
    (simp_all add: path_def opt_get_def lookup_def incident_calm_def weather_defs)

lemma north_wind_returns_null: "createPropagationCone host0 incident_north_wind = Inr Null"
  by (rule cone_null_on_zero_wind)
    (simp_all add: path_def opt_get_def lookup_def incident_north_wind_def weather_defs)

text \<open>
  C1. The claim says the function never throws and returns a FeatureCollection whenever
  the weather analysis is found and the three required fields are truthy. On the test
  response without its \<open>coordinates\<close> field all of that holds, and the function throws a
  TypeError: \<open>const { latitude, longitude } = incidentData.coordinates\<close> is the one read
  the source does not guard, while \<open>current_conditions || {}\<close> and
  \<open>fire_propagation || {}\<close> beside it are guarded.
\<close>

theorem createPropagationCone_throws_without_coordinates:
  "createPropagationCone host0 incident_no_coordinates = Inl TypeError"
  by (simp add: cone_eval incident_no_coordinates_def weather_defs)

theorem createPropagationCone_throws_without_coordinates_witness:
  "truthy (path incident_no_coordinates [''weather_analysis'', ''found'']) \<and>
   truthy (path incident_no_coordinates [''weather_analysis'', ''current_conditions'']) \<and>
   truthy (path incident_no_coordinates
             [''weather_analysis'', ''current_conditions'', ''wind_speed_kmh'']) \<and>
   truthy (path incident_no_coordinates
             [''weather_analysis'', ''current_conditions'', ''wind_direction_degrees'']) \<and>
   truthy (path incident_no_coordinates
             [''weather_analysis'', ''fire_propagation'', ''risk_level'']) \<and>
   isl (createPropagationCone host0 incident_no_coordinates)"
  using createPropagationCone_throws_without_coordinates
  by (simp add: path_def opt_get_def lookup_def incident_no_coordinates_def weather_defs)

text \<open>
  C8. The guard on the wind fields tests falsiness, and the number 0 is falsy. An input
  whose wind speed or wind direction is 0 gets \<open>null\<close> as soon as it reaches that guard,
  that is, when its \<open>coordinates\<close> are there to be destructured on the line before,
  however complete the weather analysis is otherwise; and no input with a zero there ever
  gets a cone.
\<close>

theorem createPropagationCone_null_on_zero_wind:
  assumes "path d [''weather_analysis'', ''current_conditions'', ''wind_speed_kmh''] = Num (Fin 0)
         \<or> path d [''weather_analysis'', ''current_conditions'', ''wind_direction_degrees'']
             = Num (Fin 0)"
  shows "(\<not> nullish (path d [''coordinates'']) \<longrightarrow> createPropagationCone h d = Inr Null) \<and>
         (\<forall>c. createPropagationCone h d = Inr c \<longrightarrow> c = Null)"
  using assms unfolding createPropagationCone_char by auto

theorem createPropagationCone_null_on_zero_wind_witness:
  "truthy (path incident_calm [''weather_analysis'', ''found'']) \<and>
   path incident_calm [''weather_analysis'', ''current_conditions'', ''wind_speed_kmh'']
     = Num (Fin 0) \<and>
   truthy (path incident_calm
             [''weather_analysis'', ''current_conditions'', ''wind_direction_degrees'']) \<and>
   truthy (path incident_calm [''weather_analysis'', ''fire_propagation'', ''risk_level'']) \<and>
   createPropagationCone host0 incident_calm = Inr Null \<and>
   truthy (path incident_north_wind [''weather_analysis'', ''found'']) \<and>
   truthy (path incident_north_wind
             [''weather_analysis'', ''current_conditions'', ''wind_speed_kmh'']) \<and>
   path incident_north_wind
     [''weather_analysis'', ''current_conditions'', ''wind_direction_degrees''] = Num (Fin 0) \<and>
   truthy (path incident_north_wind
             [''weather_analysis'', ''fire_propagation'', ''risk_level'']) \<and>
   createPropagationCone host0 incident_north_wind = Inr Null"
  using createPropagationCone_null_on_zero_wind[of incident_calm host0]
    createPropagationCone_null_on_zero_wind[of incident_north_wind host0]
  by (simp add: path_def opt_get_def lookup_def incident_calm_def incident_north_wind_def
        weather_defs)

subsection \<open>Cardinal directions\<close>

lemma inherited_proto: "s \<in> set Object_prototype \<Longrightarrow> inherited s = Builtin s"
  by (simp add: inherited_def)

lemma proto_not_cardinal: "s \<in> set Object_prototype \<Longrightarrow> map_of cardinalMap s = None"
  unfolding Object_prototype_def cardinalMap_def by (elim disjE | simp)+

lemma getDegreesFromCardinal_inherited:
  "s \<in> set Object_prototype \<Longrightarrow> getDegreesFromCardinal h (Str s) = Builtin s"
  by (simp add: getDegreesFromCardinal_def lookup_def proto_not_cardinal inherited_proto
        js_or_def)

lemma getDegreesFromCardinal_default:
  "s \<notin> fst ` set cardinalMap \<Longrightarrow> s \<notin> set Object_prototype \<Longrightarrow>
     getDegreesFromCardinal h (Str s) = Num (Fin 0)"
  by (auto simp: getDegreesFromCardinal_def lookup_def cardinalMap_def inherited_def js_or_def)

lemma getDegreesFromCardinal_undefined: "getDegreesFromCardinal h Undefined = Num (Fin 0)"
  by (simp add: getDegreesFromCardinal_def lookup_def cardinalMap_def inherited_def
        Object_prototype_def js_or_def)

lemma cone_constructor:
  "\<exists>c. createPropagationCone host0 incident_constructor = Inr c \<and>
       outer_ring c ! 2 = Arr [Num NaN, Num NaN]"
  by (simp add: cone_eval incident_constructor_def weather_defs build_eval ring_eval)

text \<open>
  C9. The claim says every string other than the eight cardinal names yields 0.
  \<open>cardinalMap\<close> is an object literal, so \<open>cardinalMap[direction]\<close> also finds what the
  literal inherits: for the string \<open>constructor\<close> it is the built-in \<open>Object\<close> function,
  which is truthy, and \<open>|| 0\<close> does not replace it. The function, declared to return a
  number, returns that built-in; \<open>90 - propagationDegrees\<close> is then \<open>NaN\<close> and so are the
  cone's tip and base points (\<open>cone_constructor\<close>). The same holds for each name in
  \<open>Object_prototype\<close> (\<open>getDegreesFromCardinal_inherited\<close>); every other string, and
  \<open>undefined\<close>, yields 0 as claimed.
\<close>

theorem getDegreesFromCardinal_constructor:
  "getDegreesFromCardinal host0 (Str ''constructor'') = Builtin ''constructor''"
  by (simp add: getDegreesFromCardinal_def lookup_def cardinalMap_def inherited_def
        Object_prototype_def js_or_def)

theorem getDegreesFromCardinal_constructor_witness:
  "getDegreesFromCardinal host0 (Str ''constructor'') \<noteq> Num (Fin 0) \<and>
   ToNumber host0 (getDegreesFromCardinal host0 (Str ''constructor'')) = NaN"
  using getDegreesFromCardinal_constructor by simp

subsection \<open>The polygon\<close>

lemma outer_ring_buildCone:
  "\<exists>left tip right.
     length (features (buildCone h la lo ws wd r dir)) = 1 \<and>
     path (hd (features (buildCone h la lo ws wd r dir))) [''geometry'', ''type'']
       = Str ''Polygon'' \<and>
     length (rings (hd (features (buildCone h la lo ws wd r dir)))) = 1 \<and>
     outer_ring (buildCone h la lo ws wd r dir)
       = [Arr [lo, la], left, tip, right, Arr [lo, la]]"
  by (simp add: buildCone_def Let_def features_def rings_def positions_def outer_ring_def
        path_def opt_get_def lookup_def)

lemma cos_valparaiso: "0 < cos (41309 * pi / 225000)"
proof (rule cos_gt_zero_pi)
  show "- (pi / 2) < 41309 * pi / 225000" using pi_gt_zero by simp
  have "41309 * pi / 225000 < 112500 * pi / 225000" using pi_gt_zero by simp
  then show "41309 * pi / 225000 < pi / 2" by simp
qed

lemma este_returns:
  "\<not> isl (createPropagationCone host0 incident_este) \<and>
   projr (createPropagationCone host0 incident_este) \<noteq> Null"
  by (simp add: cone_eval incident_este_def weather_defs buildCone_not_Null)

lemma este_sector_returns:
  "\<not> isl (createPropagationCone host0 incident_este_sector) \<and>
   projr (createPropagationCone host0 incident_este_sector) \<noteq> Null"
  by (simp add: cone_eval incident_este_sector_def weather_defs buildCone_not_Null)

lemma oeste_returns:
  "\<not> isl (createPropagationCone host0 incident_oeste) \<and>
   projr (createPropagationCone host0 incident_oeste) \<noteq> Null"
  by (simp add: cone_eval incident_oeste_def weather_defs buildCone_not_Null)

lemma este_ring:
  "outer_ring (projr (createPropagationCone host0 incident_este)) =
   [Arr [Num (Fin (- (716127 / 10000))), Num (Fin (- (41309 / 1250)))],
    Arr [Num (Fin (33 * sqrt 3 / (1480 * cos (41309 * pi / 225000)) - 716127 / 10000)),
         Num (Fin (- (6117857 / 185000)))],
    Arr [Num (Fin (33 / (740 * cos (41309 * pi / 225000)) - 716127 / 10000)),
         Num (Fin (- (41309 / 1250)))],
    Arr [Num (Fin (33 * sqrt 3 / (1480 * cos (41309 * pi / 225000)) - 716127 / 10000)),
         Num (Fin (- (6109607 / 185000)))],
    Arr [Num (Fin (- (716127 / 10000))), Num (Fin (- (41309 / 1250)))]]"
  using cos_valparaiso by (simp add: cone_eval incident_este_def weather_defs build_eval ring_eval)

lemma oeste_tip:
  "outer_ring (projr (createPropagationCone host0 incident_oeste)) ! 2 =
    Arr [Num (Fin (- (716127 / 10000) - 33 / (740 * cos (41309 * pi / 225000)))),
         Num (Fin (- (41309 / 1250)))]"
  using cos_valparaiso by (simp add: cone_eval incident_oeste_def weather_defs build_eval ring_eval)

lemma este_paths:
  "path incident_este [''coordinates'', ''latitude''] = Num (Fin (- 33.0472))"
  "path incident_este [''coordinates'', ''longitude''] = Num (Fin (- 71.6127))"
  "path incident_este [''weather_analysis'', ''current_conditions'', ''wind_speed_kmh'']
     = Num (Fin 30)"
  "path incident_este [''weather_analysis'', ''current_conditions'', ''wind_direction_degrees'']
     = Num (Fin 270)"
  "path incident_este [''weather_analysis'', ''fire_propagation'', ''risk_level'']
     = Str ''MEDIO''"
  "path incident_este [''weather_analysis'', ''fire_propagation'', ''direccion_aproximada'']
     = Str ''Este''"
  by (simp_all add: path_def opt_get_def lookup_def incident_este_def weather_defs)

lemma oeste_paths:
  "path incident_oeste [''coordinates'', ''latitude''] = Num (Fin (- 33.0472))"
  "path incident_oeste [''coordinates'', ''longitude''] = Num (Fin (- 71.6127))"
  "path incident_oeste [''weather_analysis'', ''current_conditions'', ''wind_speed_kmh'']
     = Num (Fin 30)"
  "path incident_oeste [''weather_analysis'', ''current_conditions'', ''wind_direction_degrees'']
     = Num (Fin 270)"
  "path incident_oeste [''weather_analysis'', ''fire_propagation'', ''risk_level'']
     = Str ''MEDIO''"
  "path incident_oeste [''weather_analysis'', ''fire_propagation'', ''direccion_aproximada'']
     = Str ''Oeste''"
  by (simp_all add: path_def opt_get_def lookup_def incident_oeste_def weather_defs)

lemma este_sector_paths:
  "path incident_este_sector [''coordinates'', ''latitude''] = Num (Fin (- 33.0472))"
  "path incident_este_sector [''coordinates'', ''longitude''] = Num (Fin (- 71.6127))"
  "path incident_este_sector [''weather_analysis'', ''current_conditions'', ''wind_speed_kmh'']
     = Num (Fin 30)"
  "path incident_este_sector
     [''weather_analysis'', ''current_conditions'', ''wind_direction_degrees''] = Num (Fin 270)"
  "path incident_este_sector [''weather_analysis'', ''fire_propagation'', ''risk_level'']
     = Str ''MEDIO''"
  "path incident_este_sector
     [''weather_analysis'', ''fire_propagation'', ''direccion_aproximada''] = Str ''Este''"
  by (simp_all add: path_def opt_get_def lookup_def incident_este_sector_def weather_defs)

lemma cone_ring_closed:
  assumes "createPropagationCone h d = Inr c" and "c \<noteq> Null"
  shows "length (features c) = 1 \<and> length (rings (hd (features c))) = 1 \<and>
         path (hd (features c)) [''geometry'', ''type''] = Str ''Polygon'' \<and>
         length (outer_ring c) = 5 \<and> outer_ring c ! 0 = outer_ring c ! 4 \<and>
         outer_ring c ! 0 = Arr [path d [''coordinates'', ''longitude''],
                                 path d [''coordinates'', ''latitude'']]"
proof -
  let ?o = "Arr [path d [''coordinates'', ''longitude''], path d [''coordinates'', ''latitude'']]"
  let ?b = "buildCone h (path d [''coordinates'', ''latitude''])
                 (path d [''coordinates'', ''longitude''])
                 (path d [''weather_analysis'', ''current_conditions'', ''wind_speed_kmh''])
                 (path d [''weather_analysis'', ''current_conditions'',
                          ''wind_direction_degrees''])
                 (path d [''weather_analysis'', ''fire_propagation'', ''risk_level''])
                 (path d [''weather_analysis'', ''fire_propagation'',
                          ''direccion_aproximada''])"
  have c: "c = ?b" using assms by (rule cone_returned)
  obtain left tip right where r:
    "length (features ?b) = 1"
    "path (hd (features ?b)) [''geometry'', ''type''] = Str ''Polygon''"
    "length (rings (hd (features ?b))) = 1"
    "outer_ring ?b = [?o, left, tip, right, ?o]"
    using outer_ring_buildCone by blast
  show ?thesis unfolding c using r by simp
qed

text \<open>
  The ring of the test response. Finite numbers are computed here as reals; the corners
  lie far apart compared with the rounding of floating-point arithmetic: the base points
  lie \<open>4125 / 185000\<close> of a degree (about 0.022) south and north of the origin and the
  tip, and the tip at least \<open>33 / 740\<close> of a degree (about 0.045) east of the origin.
\<close>

lemma este_ring_apart:
  "\<exists>u v. 0 < u \<and> 33 / 740 \<le> v \<and>
     outer_ring (projr (createPropagationCone host0 incident_este)) =
       [Arr [Num (Fin (- 71.6127)), Num (Fin (- 33.0472))],
        Arr [Num (Fin (u - 71.6127)), Num (Fin (- 33.0472 - 4125 / 185000))],
        Arr [Num (Fin (v - 71.6127)), Num (Fin (- 33.0472))],
        Arr [Num (Fin (u - 71.6127)), Num (Fin (- 33.0472 + 4125 / 185000))],
        Arr [Num (Fin (- 71.6127)), Num (Fin (- 33.0472))]]"
proof -
  let ?c = "cos (41309 * pi / 225000)"
  have c: "0 < ?c" "?c \<le> 1" using cos_valparaiso by simp_all
  have v: "33 / 740 \<le> 33 / (740 * ?c)"
    using c by (simp add: field_simps)
  have u: "0 < 33 * sqrt 3 / (1480 * ?c)" using c by simp
  show ?thesis
    apply (rule exI[of _ "33 * sqrt 3 / (1480 * ?c)"])
    apply (rule exI[of _ "33 / (740 * ?c)"])
    using u v unfolding este_ring by simp
qed

text \<open>
  C2. The claim, the glossary of the specification and the comment in the source
  (\<open>simplified triangular cone\<close>) say the polygon is a triangle: a closed ring with exactly
  three distinct vertices. The ring the code builds is closed (\<open>cone_ring_closed\<close>), but
  its positions are the origin, the left base point, the tip, the right base point and
  the origin again: on the test response of the repository these are four distinct
  vertices (\<open>este_ring_apart\<close>), not three.
\<close>

theorem cone_ring_has_four_vertices:
  "\<not> isl (createPropagationCone host0 incident_este) \<and>
   projr (createPropagationCone host0 incident_este) \<noteq> Null \<and>
   card (set (outer_ring (projr (createPropagationCone host0 incident_este)))) = 4"
proof -
  have pos: "0 < 33 / (740 * cos (41309 * pi / 225000))"
    using cos_valparaiso by simp
  have "distinct (butlast (outer_ring (projr (createPropagationCone host0 incident_este))))"
    unfolding este_ring using pos by simp
  moreover have "set (outer_ring (projr (createPropagationCone host0 incident_este))) =
      set (butlast (outer_ring (projr (createPropagationCone host0 incident_este))))"
    unfolding este_ring by auto
  moreover have
    "length (butlast (outer_ring (projr (createPropagationCone host0 incident_este)))) = 4"
    unfolding este_ring by simp
  ultimately have
    "card (set (outer_ring (projr (createPropagationCone host0 incident_este)))) = 4"
    using distinct_card by metis
  then show ?thesis using este_returns by simp
qed

theorem cone_ring_has_four_vertices_witness:
  "length (outer_ring (projr (createPropagationCone host0 incident_este))) = 5 \<and>
   outer_ring (projr (createPropagationCone host0 incident_este)) ! 0
     = outer_ring (projr (createPropagationCone host0 incident_este)) ! 4 \<and>
   card (set (outer_ring (projr (createPropagationCone host0 incident_este)))) \<noteq> 3"
proof -
  have "card (set (outer_ring (projr (createPropagationCone host0 incident_este)))) \<noteq> 3"
    using cone_ring_has_four_vertices by simp
  moreover have
    "length (outer_ring (projr (createPropagationCone host0 incident_este))) = 5 \<and>
     outer_ring (projr (createPropagationCone host0 incident_este)) ! 0
       = outer_ring (projr (createPropagationCone host0 incident_este)) ! 4"
    unfolding este_ring by simp
  ultimately show ?thesis by blast
qed

subsection \<open>What the polygon depends on\<close>

text \<open>
  C3 (as stated). The claim says two incidents that agree on latitude, longitude, wind
  speed, wind direction in degrees and risk level get equal polygons. The two incidents
  here agree on all five and differ in \<open>fire_propagation.direccion_aproximada\<close> (Este,
  Oeste): both get a cone, and the rings differ (the tips lie on opposite sides of the
  origin). The source takes the direction from that field (\<open>Use the fire propagation
  direction from the API\<close>); the angle it derives from \<open>wind_direction_degrees\<close> is
  never used.
\<close>

theorem cone_differs_by_direccion:
  "path incident_este [''coordinates'', ''latitude'']
     = path incident_oeste [''coordinates'', ''latitude''] \<and>
   path incident_este [''coordinates'', ''longitude'']
     = path incident_oeste [''coordinates'', ''longitude''] \<and>
   path incident_este [''weather_analysis'', ''current_conditions'', ''wind_speed_kmh'']
     = path incident_oeste [''weather_analysis'', ''current_conditions'', ''wind_speed_kmh''] \<and>
   path incident_este [''weather_analysis'', ''current_conditions'', ''wind_direction_degrees'']
     = path incident_oeste
         [''weather_analysis'', ''current_conditions'', ''wind_direction_degrees''] \<and>
   path incident_este [''weather_analysis'', ''fire_propagation'', ''risk_level'']
     = path incident_oeste [''weather_analysis'', ''fire_propagation'', ''risk_level''] \<and>
   \<not> isl (createPropagationCone host0 incident_este) \<and>
   \<not> isl (createPropagationCone host0 incident_oeste) \<and>
   outer_ring (projr (createPropagationCone host0 incident_este))
     \<noteq> outer_ring (projr (createPropagationCone host0 incident_oeste))"
proof -
  have pos: "0 < 33 / (740 * cos (41309 * pi / 225000))"
    using cos_valparaiso by simp
  have "outer_ring (projr (createPropagationCone host0 incident_este)) ! 2
     \<noteq> outer_ring (projr (createPropagationCone host0 incident_oeste)) ! 2"
    unfolding este_ring oeste_tip using pos by simp
  then have "outer_ring (projr (createPropagationCone host0 incident_este))
     \<noteq> outer_ring (projr (createPropagationCone host0 incident_oeste))"
    by metis
  then show ?thesis using este_returns oeste_returns by (simp add: este_paths oeste_paths)
qed

text \<open>
  C3 (amended). Two incidents for which a cone is returned and which agree on latitude,
  longitude, wind speed, wind direction in degrees, risk level and
  \<open>fire_propagation.direccion_aproximada\<close> get the same cone, hence the same polygon.
\<close>

theorem cone_determined_by_its_fields:
  assumes "createPropagationCone h a = Inr ca" and "ca \<noteq> Null"
    and "createPropagationCone h b = Inr cb" and "cb \<noteq> Null"
    and "path a [''coordinates'', ''latitude''] = path b [''coordinates'', ''latitude'']"
    and "path a [''coordinates'', ''longitude''] = path b [''coordinates'', ''longitude'']"
    and "path a [''weather_analysis'', ''current_conditions'', ''wind_speed_kmh'']
       = path b [''weather_analysis'', ''current_conditions'', ''wind_speed_kmh'']"
    and "path a [''weather_analysis'', ''current_conditions'', ''wind_direction_degrees'']
       = path b [''weather_analysis'', ''current_conditions'', ''wind_direction_degrees'']"
    and "path a [''weather_analysis'', ''fire_propagation'', ''risk_level'']
       = path b [''weather_analysis'', ''fire_propagation'', ''risk_level'']"
    and "path a [''weather_analysis'', ''fire_propagation'', ''direccion_aproximada'']
       = path b [''weather_analysis'', ''fire_propagation'', ''direccion_aproximada'']"
  shows "ca = cb \<and> outer_ring ca = outer_ring cb"
  using cone_returned[OF assms(1,2)] cone_returned[OF assms(3,4)] assms(5-10) by simp

theorem cone_determined_by_its_fields_witness:
  "incident_este \<noteq> incident_este_sector \<and>
   \<not> isl (createPropagationCone host0 incident_este) \<and>
   \<not> isl (createPropagationCone host0 incident_este_sector) \<and>
   projr (createPropagationCone host0 incident_este) \<noteq> Null \<and>
   projr (createPropagationCone host0 incident_este)
     = projr (createPropagationCone host0 incident_este_sector)"
proof -
  have ra: "createPropagationCone host0 incident_este
             = Inr (projr (createPropagationCone host0 incident_este))"
    using este_returns by simp
  have rb: "createPropagationCone host0 incident_este_sector
             = Inr (projr (createPropagationCone host0 incident_este_sector))"
    using este_sector_returns by simp
  have "projr (createPropagationCone host0 incident_este)
     = projr (createPropagationCone host0 incident_este_sector)"
    using cone_determined_by_its_fields[OF ra _ rb] este_returns este_sector_returns
    by (simp add: este_paths este_sector_paths)
  moreover have "incident_este \<noteq> incident_este_sector"
    by (simp add: incident_este_def incident_este_sector_def)
  ultimately show ?thesis using este_returns este_sector_returns by simp
qed

section \<open>Properties of the incident client\<close>

subsection \<open>Enumerations\<close>

lemma thenE_Inr: "thenE m f = Inr y \<longleftrightarrow> (\<exists>x. m = Inr x \<and> f x = Inr y)"
  by (cases m) (simp_all add: thenE_def)

lemma thenE_InrE:
  assumes "thenE m f = Inr y"
  obtains x where "m = Inr x" and "f x = Inr y"
  using assms by (auto simp: thenE_Inr)

text \<open>
  The tables are object literals, so a key that names a member of \<open>Object.prototype\<close>
  would read that member. Every such name has an ASCII lower-case letter;
  \<open>String.prototype.toUpperCase\<close> leaves none in its result. That property of the host is
  the hypothesis \<open>\<forall>s. \<forall>c \<in> set (toUpperCase h s). c \<notin> set lower_letters\<close> below; the host of
  the examples has it.
\<close>

lemma upper_letter_no_lower: "upper_letter a \<notin> set lower_letters"
proof (cases "a \<in> set lower_letters")
  case True
  then show ?thesis
    unfolding upper_letter_def lower_letters_def upper_letters_def by (elim disjE | simp)+
next
  case False
  then have "map_of (zip lower_letters upper_letters) a = None"
    by (simp add: map_of_zip_is_None lower_letters_def upper_letters_def)
  then show ?thesis using False by (simp add: upper_letter_def)
qed

lemma upper_bytes_no_lower: "c \<in> set (upper_bytes s) \<Longrightarrow> c \<notin> set lower_letters"
proof (induction s rule: upper_bytes.induct)
  case 1
  then show ?case by simp
next
  case (2 a)
  then show ?case using upper_letter_no_lower by simp
next
  case (3 a b s)
  have "CHR ''I'' \<notin> set lower_letters" by (simp add: lower_letters_def)
  then show ?case using 3 upper_letter_no_lower by (auto split: if_splits)
qed

lemma host0_upper_case: "\<forall>s. \<forall>c \<in> set (toUpperCase host0 s). c \<notin> set lower_letters"
  using upper_bytes_no_lower by (simp add: host0_def)

lemma proto_has_lower: "k \<in> set Object_prototype \<Longrightarrow> \<exists>c \<in> set k. c \<in> set lower_letters"
  unfolding Object_prototype_def lower_letters_def by (elim disjE | simp)+

lemma toUpperCase_not_inherited:
  assumes "\<forall>s. \<forall>c \<in> set (toUpperCase h s). c \<notin> set lower_letters"
  shows "inherited (toUpperCase h s) = Undefined"
  using assms proto_has_lower unfolding inherited_def by metis

lemma undefined_not_inherited: "inherited ''undefined'' = Undefined"
  by (simp add: inherited_def Object_prototype_def)

lemma upper_key_not_inherited:
  assumes "\<forall>s. \<forall>c \<in> set (toUpperCase h s). c \<notin> set lower_letters"
    and "upper_key h v = Inr k"
  shows "inherited k = Undefined"
  using assms(2) toUpperCase_not_inherited[OF assms(1)]
  by (cases v) (auto simp: undefined_not_inherited)

lemma backendStatusMap_values:
  "map_of backendStatusMap k = Some v \<Longrightarrow> v \<in> estados \<and> truthy v"
  by (drule map_of_SomeD) (auto simp: backendStatusMap_def estados_def)

lemma backendPriorityMap_values:
  "map_of backendPriorityMap k = Some v \<Longrightarrow> v \<in> prioridades \<and> truthy v"
  by (drule map_of_SomeD) (auto simp: backendPriorityMap_def prioridades_def)

lemma transformBackendStatus_enum:
  assumes up: "\<forall>s. \<forall>c \<in> set (toUpperCase h s). c \<notin> set lower_letters"
    and "transformBackendStatus h v = Inr r"
  shows "r \<in> estados"
proof -
  from assms(2) obtain k where k: "upper_key h v = Inr k"
    and r: "r = js_or (lookup backendStatusMap k) (Str ''activo'')"
    unfolding transformBackendStatus_def by (auto elim: thenE_InrE)
  show ?thesis
  proof (cases "map_of backendStatusMap k")
    case None
    then show ?thesis using upper_key_not_inherited[OF up k]
      by (simp add: r lookup_def js_or_def estados_def)
  next
    case (Some x)
    then show ?thesis using backendStatusMap_values[OF Some]
      by (simp add: r lookup_def js_or_def)
  qed
qed

lemma transformBackendPriority_enum:
  assumes up: "\<forall>s. \<forall>c \<in> set (toUpperCase h s). c \<notin> set lower_letters"
    and "transformBackendPriority h v = Inr r"
  shows "r \<in> prioridades"
proof -
  from assms(2) obtain k where k: "upper_key h v = Inr k"
    and r: "r = js_or (lookup backendPriorityMap k) (Str ''media'')"
    unfolding transformBackendPriority_def by (auto elim: thenE_InrE)
  show ?thesis
  proof (cases "map_of backendPriorityMap k")
    case None
    then show ?thesis using upper_key_not_inherited[OF up k]
      by (simp add: r lookup_def js_or_def prioridades_def)
  next
    case (Some x)
    then show ?thesis using backendPriorityMap_values[OF Some]
      by (simp add: r lookup_def js_or_def)
  qed
qed

lemma transformBackendStatus_unrecognised:
  assumes up: "\<forall>s. \<forall>c \<in> set (toUpperCase h s). c \<notin> set lower_letters"
    and "toUpperCase h s \<notin> fst ` set backendStatusMap"
  shows "transformBackendStatus h (Str s) = Inr (Str ''activo'')"
proof -
  have "map_of backendStatusMap (toUpperCase h s) = None"
    using assms(2) by (simp add: map_of_eq_None_iff)
  then show ?thesis
    by (simp add: transformBackendStatus_def thenE_def lookup_def
          toUpperCase_not_inherited[OF up] js_or_def)
qed

lemma transformBackendPriority_unrecognised:
  assumes up: "\<forall>s. \<forall>c \<in> set (toUpperCase h s). c \<notin> set lower_letters"
    and "toUpperCase h s \<notin> fst ` set backendPriorityMap"
  shows "transformBackendPriority h (Str s) = Inr (Str ''media'')"
proof -
  have "map_of backendPriorityMap (toUpperCase h s) = None"
    using assms(2) by (simp add: map_of_eq_None_iff)
  then show ?thesis
    by (simp add: transformBackendPriority_def thenE_def lookup_def
          toUpperCase_not_inherited[OF up] js_or_def)
qed

lemma toIncendio_enum:
  assumes up: "\<forall>s. \<forall>c \<in> set (toUpperCase h s). c \<notin> set lower_letters"
    and "toIncendio h now item = Inr inc"
  shows "estado inc \<in> estados \<and> prioridad inc \<in> prioridades"
  using assms(2) unfolding toIncendio_def
  apply (elim thenE_InrE)
  apply (auto dest: transformBackendStatus_enum[OF up] transformBackendPriority_enum[OF up])
  done

lemma mapE_Inr:
  "mapE f xs = Inr ys \<Longrightarrow> \<forall>y \<in> set ys. \<exists>x \<in> set xs. f x = Inr y"
proof (induction xs arbitrary: ys)
  case Nil
  then show ?case by simp
next
  case (Cons x xs)
  from Cons.prems obtain y ys' where "f x = Inr y" "mapE f xs = Inr ys'" "ys = y # ys'"
    by (auto elim!: thenE_InrE)
  then show ?case using Cons.IH by auto
qed

text \<open>
  C4. On a host whose \<open>toUpperCase\<close> leaves no ASCII lower-case letter in its result, as
  \<open>String.prototype.toUpperCase\<close> does: every incident that \<open>getIncendio\<close> returns, and
  every incident in the page that \<open>getIncendios\<close> returns, has its \<open>estado\<close> among activo,
  controlado, extinguido, cancelado and its \<open>prioridad\<close> among baja, media, alta, critica,
  whatever the backend sent; a backend status whose upper-case form (the host's) is not a
  key of the status table becomes activo, and a backend priority whose upper-case form is
  not a key of the priority table becomes media.
\<close>

theorem fetched_incendios_in_enums:
  assumes up: "\<forall>s. \<forall>c \<in> set (toUpperCase h s). c \<notin> set lower_letters"
  shows
  "(getIncendio h be now ident tok w = (Inr inc, w1) \<longrightarrow>
      estado inc \<in> estados \<and> prioridad inc \<in> prioridades) \<and>
   (getIncendios h be now filters tok w = (Inr pg, w2) \<longrightarrow>
      (\<forall>i \<in> set (data pg). estado i \<in> estados \<and> prioridad i \<in> prioridades)) \<and>
   (toUpperCase h s \<notin> fst ` set backendStatusMap \<longrightarrow>
      transformBackendStatus h (Str s) = Inr (Str ''activo'')) \<and>
   (toUpperCase h s \<notin> fst ` set backendPriorityMap \<longrightarrow>
      transformBackendPriority h (Str s) = Inr (Str ''media''))"
proof -
  have one: "estado inc \<in> estados \<and> prioridad inc \<in> prioridades"
    if "getIncendio h be now ident tok w = (Inr inc, w1)"
  proof -
    from that obtain b where "toIncendio h now b = Inr inc"
      unfolding getIncendio_def by (auto split: prod.splits elim: thenE_InrE)
    then show ?thesis by (rule toIncendio_enum[OF up])
  qed
  have many: "\<forall>i \<in> set (data pg). estado i \<in> estados \<and> prioridad i \<in> prioridades"
    if "getIncendios h be now filters tok w = (Inr pg, w2)"
  proof -
    from that obtain items where "mapE (toIncendio h now) items = Inr (data pg)"
      unfolding getIncendios_def
      by (auto split: prod.splits jsval.splits elim!: thenE_InrE)
    then have "\<forall>i \<in> set (data pg). \<exists>x \<in> set items. toIncendio h now x = Inr i"
      by (rule mapE_Inr)
    then show ?thesis using toIncendio_enum[OF up] by blast
  qed
  show ?thesis
    using one many transformBackendStatus_unrecognised[OF up]
      transformBackendPriority_unrecognised[OF up]
    by blast
qed

lemmas client_eval =
  getIncendio_def getIncendios_def send_def service_def world0_def stored_def
  toIncendio_def thenE_def transformBackendStatus_def transformBackendPriority_def
  host0_def upper_letter_def lower_letter_def lower_letters_def upper_letters_def lookup_def
  inherited_def Object_prototype_def js_or_def backendStatusMap_def backendPriorityMap_def
  bearer_def params_of_def filter_field_def opt_get_def

lemma getIncendio_stored:
  "\<exists>inc w1. getIncendio host0 service ''2024-01-01T12:00:00Z'' (Num (Fin 7)) None world0
             = (Inr inc, w1) \<and>
           estado inc = Str ''activo'' \<and> prioridad inc = Str ''media''"
  by (simp add: client_eval)

lemma getIncendios_stored:
  "\<exists>pg w2. getIncendios host0 service ''2024-01-01T12:00:00Z'' None None world0
             = (Inr pg, w2) \<and>
           length (data pg) = 1"
  by (simp add: client_eval)

lemma urgente_unrecognised:
  "toUpperCase host0 ''urgente'' \<notin> fst ` set backendPriorityMap \<and>
   toUpperCase host0 ''en_combate'' \<in> fst ` set backendStatusMap \<and>
   toUpperCase host0 ''apagado'' \<notin> fst ` set backendStatusMap"
  by (simp add: host0_def upper_letter_def lower_letters_def upper_letters_def
        backendPriorityMap_def backendStatusMap_def)

lemma dotless_recognised:
  "transformBackendStatus host0 (Str extinguido_dotless) = Inr (Str ''extinguido'') \<and>
   transformBackendPriority host0 (Str critica_dotless) = Inr (Str ''critica'')"
  by (simp add: extinguido_dotless_def critica_dotless_def transformBackendStatus_def
        transformBackendPriority_def thenE_def host0_def upper_letter_def lower_letters_def
        upper_letters_def lookup_def js_or_def backendStatusMap_def backendPriorityMap_def)

theorem fetched_incendios_in_enums_witness:
  "(\<forall>s. list_all (\<lambda>c. c \<notin> set lower_letters) (toUpperCase host0 s)) \<and>
   (\<exists>inc w1 pg w2.
     getIncendio host0 service ''2024-01-01T12:00:00Z'' (Num (Fin 7)) None world0
       = (Inr inc, w1) \<and>
     estado inc = Str ''activo'' \<and> prioridad inc = Str ''media'' \<and>
     estado inc \<in> estados \<and> prioridad inc \<in> prioridades \<and>
     getIncendios host0 service ''2024-01-01T12:00:00Z'' None None world0 = (Inr pg, w2) \<and>
     length (data pg) = 1 \<and>
     list_all (\<lambda>i. estado i \<in> estados \<and> prioridad i \<in> prioridades) (data pg) \<and>
     toUpperCase host0 ''apagado'' \<notin> fst ` set backendStatusMap \<and>
     transformBackendStatus host0 (Str ''apagado'') = Inr (Str ''activo'') \<and>
     toUpperCase host0 ''urgente'' \<notin> fst ` set backendPriorityMap \<and>
     transformBackendPriority host0 (Str ''urgente'') = Inr (Str ''media'') \<and>
     transformBackendStatus host0 (Str extinguido_dotless) = Inr (Str ''extinguido'') \<and>
     transformBackendPriority host0 (Str critica_dotless) = Inr (Str ''critica''))"
proof -
  obtain inc w1 where one:
    "getIncendio host0 service ''2024-01-01T12:00:00Z'' (Num (Fin 7)) None world0
       = (Inr inc, w1)"
    "estado inc = Str ''activo''" "prioridad inc = Str ''media''"
    using getIncendio_stored by blast
  obtain pg w2 where many:
    "getIncendios host0 service ''2024-01-01T12:00:00Z'' None None world0 = (Inr pg, w2)"
    "length (data pg) = 1"
    using getIncendios_stored by blast
  note inst = fetched_incendios_in_enums[OF host0_upper_case,
      of service "''2024-01-01T12:00:00Z''" "Num (Fin 7)" None world0 inc w1 None pg w2]
  have a: "estado inc \<in> estados \<and> prioridad inc \<in> prioridades"
    using inst[of "''apagado''"] one(1) by blast
  have b: "list_all (\<lambda>i. estado i \<in> estados \<and> prioridad i \<in> prioridades) (data pg)"
    using inst[of "''apagado''"] many(1) by (simp add: list_all_iff)
  have c: "transformBackendStatus host0 (Str ''apagado'') = Inr (Str ''activo'')"
    using inst[of "''apagado''"] urgente_unrecognised by blast
  have d: "transformBackendPriority host0 (Str ''urgente'') = Inr (Str ''media'')"
    using inst[of "''urgente''"] urgente_unrecognised by blast
  have "\<exists>inc w1 pg w2.
     getIncendio host0 service ''2024-01-01T12:00:00Z'' (Num (Fin 7)) None world0
       = (Inr inc, w1) \<and>
     estado inc = Str ''activo'' \<and> prioridad inc = Str ''media'' \<and>
     estado inc \<in> estados \<and> prioridad inc \<in> prioridades \<and>
     getIncendios host0 service ''2024-01-01T12:00:00Z'' None None world0 = (Inr pg, w2) \<and>
     length (data pg) = 1 \<and>
     list_all (\<lambda>i. estado i \<in> estados \<and> prioridad i \<in> prioridades) (data pg) \<and>
     toUpperCase host0 ''apagado'' \<notin> fst ` set backendStatusMap \<and>
     transformBackendStatus host0 (Str ''apagado'') = Inr (Str ''activo'') \<and>
     toUpperCase host0 ''urgente'' \<notin> fst ` set backendPriorityMap \<and>
     transformBackendPriority host0 (Str ''urgente'') = Inr (Str ''media'') \<and>
     transformBackendStatus host0 (Str extinguido_dotless) = Inr (Str ''extinguido'') \<and>
     transformBackendPriority host0 (Str critica_dotless) = Inr (Str ''critica'')"
    using one many a b c d urgente_unrecognised dotless_recognised by blast
  moreover have "\<forall>s. list_all (\<lambda>c. c \<notin> set lower_letters) (toUpperCase host0 s)"
    using host0_upper_case by (simp add: list_all_iff)
  ultimately show ?thesis by blast
qed

subsection \<open>Mutations\<close>











section \<open>Properties of the dispatch map\<close>

subsection \<open>Coordinate entry\<close>

lemma in_range_iff:
  "coordinates_in_range h txt \<longleftrightarrow>
     \<not> isNaN (parseFloat h (fst txt)) \<and> \<not> isNaN (parseFloat h (snd txt)) \<and>
     num_ge (parseFloat h (fst txt)) (Fin (- 90)) \<and> num_le (parseFloat h (fst txt)) (Fin 90) \<and>
     num_ge (parseFloat h (snd txt)) (Fin (- 180)) \<and> num_le (parseFloat h (snd txt)) (Fin 180)"
  unfolding coordinates_in_range_def num_le_def
  by (cases "parseFloat h (fst txt)"; cases "parseFloat h (snd txt)") simp_all

text \<open>
  C10. \<open>handleCoordinateSubmit\<close> sets the placemark to the parsed pair, and shows no
  alert, when the two texts are in range; in every other case it changes nothing but the
  list of alerts, to which it adds the invalid-coordinates message.
\<close>

theorem handleCoordinateSubmit_moves_iff_in_range:
  "(coordinates_in_range h (coordinateInput s) \<longrightarrow>
      placemark (handleCoordinateSubmit h has_map s)
        = \<lparr>latitude = parseFloat h (fst (coordinateInput s)),
           longitude = parseFloat h (snd (coordinateInput s))\<rparr> \<and>
      alerts (handleCoordinateSubmit h has_map s) = alerts s) \<and>
   (\<not> coordinates_in_range h (coordinateInput s) \<longrightarrow>
      handleCoordinateSubmit h has_map s = s\<lparr>alerts := alerts s @ [Coordenadas_invalidas]\<rparr> \<and>
      placemark (handleCoordinateSubmit h has_map s) = placemark s)"
  unfolding in_range_iff by (simp add: handleCoordinateSubmit_def Let_def)

theorem handleCoordinateSubmit_moves_iff_in_range_witness:
  "coordinates_in_range host1 (''-20.5'', ''-71.6127'') \<and>
   placemark (handleCoordinateSubmit host1 True (dispatch0\<lparr>coordinateInput := (''-20.5'', ''-71.6127'')\<rparr>))
     = \<lparr>latitude = Fin (- 20.5), longitude = Fin (- 71.6127)\<rparr> \<and>
   alerts (handleCoordinateSubmit host1 True (dispatch0\<lparr>coordinateInput := (''-20.5'', ''-71.6127'')\<rparr>))
     = [] \<and>
   \<not> coordinates_in_range host1 (''91'', ''-71.6127'') \<and>
   placemark (handleCoordinateSubmit host1 True (dispatch0\<lparr>coordinateInput := (''91'', ''-71.6127'')\<rparr>))
     = placemark dispatch0 \<and>
   alerts (handleCoordinateSubmit host1 True (dispatch0\<lparr>coordinateInput := (''91'', ''-71.6127'')\<rparr>))
     = [Coordenadas_invalidas] \<and>
   \<not> coordinates_in_range host1 (''invalid'', ''invalid'') \<and>
   alerts (handleCoordinateSubmit host1 True (dispatch0\<lparr>coordinateInput := (''invalid'', ''invalid'')\<rparr>))
     = [Coordenadas_invalidas]"
proof -
  have a: "coordinates_in_range host1 (''-20.5'', ''-71.6127'')"
    by (simp add: coordinates_in_range_def host1_def)
  have b: "\<not> coordinates_in_range host1 (''91'', ''-71.6127'')"
    by (simp add: coordinates_in_range_def host1_def)
  have c: "\<not> coordinates_in_range host1 (''invalid'', ''invalid'')"
    by (simp add: coordinates_in_range_def host1_def)
  have p: "parseFloat host1 ''-20.5'' = Fin (- 20.5)" "parseFloat host1 ''-71.6127'' = Fin (- 71.6127)"
    by (simp_all add: host1_def)
  show ?thesis
    using handleCoordinateSubmit_moves_iff_in_range
            [of host1 "dispatch0\<lparr>coordinateInput := (''-20.5'', ''-71.6127'')\<rparr>" True]
          handleCoordinateSubmit_moves_iff_in_range
            [of host1 "dispatch0\<lparr>coordinateInput := (''91'', ''-71.6127'')\<rparr>" True]
          handleCoordinateSubmit_moves_iff_in_range
            [of host1 "dispatch0\<lparr>coordinateInput := (''invalid'', ''invalid'')\<rparr>" True]
          a b c p
    by (simp add: dispatch0_def)
qed

subsection \<open>Declaring an incident\<close>

lemma declare_try_fails:
  "post_fails outcome \<Longrightarrow> \<exists>e. declare_try h outcome s = (s, Some e)"
  by (cases outcome) (simp_all add: declare_try_def)

lemma handleDeclareIncident_not_submitting:
  "\<not> isSubmitting (handleDeclareIncident h date rnd outcome s)"
  by (simp add: handleDeclareIncident_def Let_def split: prod.splits option.splits)

text \<open>
  C7. When the POST fails, \<open>handleDeclareIncident\<close> changes the state in three places
  only: the one request it sent is recorded (no second request follows), the error alert
  is added, and \<open>isSubmitting\<close> is false; so \<open>incendioData\<close>, \<open>incidentDeclared\<close>,
  \<open>propagationCone\<close> and \<open>showDrawer\<close> are what they were. Whatever the outcome of the
  POST, \<open>isSubmitting\<close> is false when the call completes.
\<close>

theorem handleDeclareIncident_on_failure:
  "(post_fails outcome \<longrightarrow>
      handleDeclareIncident h date rnd outcome s =
        s\<lparr>declarations := declarations s @
              [\<lparr>post_longitude = longitude (placemark s),
                post_latitude = latitude (placemark s),
                post_nombre = ''Incendio_'' @ date @ ''_'' @ rnd\<rparr>],
          alerts := alerts s @ [Error_al_declarar],
          isSubmitting := False\<rparr> \<and>
      incendioData (handleDeclareIncident h date rnd outcome s) = incendioData s \<and>
      incidentDeclared (handleDeclareIncident h date rnd outcome s) = incidentDeclared s \<and>
      propagationCone (handleDeclareIncident h date rnd outcome s) = propagationCone s \<and>
      showDrawer (handleDeclareIncident h date rnd outcome s) = showDrawer s \<and>
      alerts (handleDeclareIncident h date rnd outcome s) = alerts s @ [Error_al_declarar] \<and>
      length (declarations (handleDeclareIncident h date rnd outcome s))
        = length (declarations s) + 1) \<and>
   \<not> isSubmitting (handleDeclareIncident h date rnd outcome s)"
proof -
  have fail: "handleDeclareIncident h date rnd outcome s =
        s\<lparr>declarations := declarations s @
              [\<lparr>post_longitude = longitude (placemark s),
                post_latitude = latitude (placemark s),
                post_nombre = ''Incendio_'' @ date @ ''_'' @ rnd\<rparr>],
          alerts := alerts s @ [Error_al_declarar],
          isSubmitting := False\<rparr>" if pf: "post_fails outcome"
  proof -
    let ?s1 = "s\<lparr>isSubmitting := True,
                 declarations := declarations s @
                   [\<lparr>post_longitude = longitude (placemark s),
                     post_latitude = latitude (placemark s),
                     post_nombre = ''Incendio_'' @ date @ ''_'' @ rnd\<rparr>]\<rparr>"
    obtain e where "declare_try h outcome ?s1 = (?s1, Some e)"
      using declare_try_fails[OF pf] by blast
    then show ?thesis by (simp add: handleDeclareIncident_def Let_def)
  qed
  show ?thesis
  proof (cases "post_fails outcome")
    case True
    show ?thesis unfolding fail[OF True] using True by simp
  next
    case False
    then show ?thesis using handleDeclareIncident_not_submitting by simp
  qed
qed

theorem handleDeclareIncident_on_failure_witness:
  "post_fails Rejected \<and>
   handleDeclareIncident host0 ''2024-01-01'' ''417'' Rejected (dispatch0\<lparr>isSubmitting := True\<rparr>)
     = dispatch0\<lparr>declarations :=
                    [\<lparr>post_longitude = Fin (- 71.6127), post_latitude = Fin (- 33.0472),
                      post_nombre = ''Incendio_2024-01-01_417''\<rparr>],
                  alerts := [Error_al_declarar]\<rparr> \<and>
   post_fails (Response False 500 (Inr Null)) \<and>
   alerts (handleDeclareIncident host0 ''2024-01-01'' ''417'' (Response False 500 (Inr Null))
             dispatch0) = [Error_al_declarar] \<and>
   showDrawer (handleDeclareIncident host0 ''2024-01-01'' ''417'' (Response False 500 (Inr Null))
             dispatch0) = False \<and>
   \<not> post_fails (Response True 200 (Inr incident_este)) \<and>
   \<not> isSubmitting (handleDeclareIncident host0 ''2024-01-01'' ''417''
                     (Response True 200 (Inr incident_este)) dispatch0)"
  using handleDeclareIncident_on_failure
          [of Rejected host0 "''2024-01-01''" "''417''" "dispatch0\<lparr>isSubmitting := True\<rparr>"]
        handleDeclareIncident_on_failure
          [of "Response False 500 (Inr Null)" host0 "''2024-01-01''" "''417''" dispatch0]
        handleDeclareIncident_on_failure
          [of "Response True 200 (Inr incident_este)" host0 "''2024-01-01''" "''417''" dispatch0]
  by (simp add: dispatch0_def)

text \<open>
  The success path of the same call, for comparison: the response is stored and the
  drawer opens. When the response has no \<open>coordinates\<close>, \<open>createPropagationCone\<close>
  throws inside the \<open>try\<close> block after the response was stored, and the user is told the
  declaration failed although the incident is declared.
\<close>

lemma calm_brigade_analysis: "get incident_calm ''brigade_analysis'' = Inr Undefined"
  by (simp add: incident_calm_def lookup_def inherited_def Object_prototype_def)

lemma no_coordinates_brigade_analysis:
  "get incident_no_coordinates ''brigade_analysis'' = Inr Undefined"
  by (simp add: incident_no_coordinates_def lookup_def inherited_def Object_prototype_def)

lemma handleDeclareIncident_success:
  "handleDeclareIncident host0 ''2024-01-01'' ''417'' (Response True 200 (Inr incident_calm))
     dispatch0 =
   dispatch0\<lparr>declarations :=
                [\<lparr>post_longitude = Fin (- 71.6127), post_latitude = Fin (- 33.0472),
                  post_nombre = ''Incendio_2024-01-01_417''\<rparr>],
              incendioData := incident_calm, incidentDeclared := True,
              showTooltip := False, showDrawer := True\<rparr>"
  by (simp add: handleDeclareIncident_def declare_try_def dispatch0_def Let_def
        calm_brigade_analysis calm_returns_null)

lemma handleDeclareIncident_cone_throws:
  "handleDeclareIncident host0 ''2024-01-01'' ''417''
     (Response True 200 (Inr incident_no_coordinates)) dispatch0 =
   dispatch0\<lparr>declarations :=
                [\<lparr>post_longitude = Fin (- 71.6127), post_latitude = Fin (- 33.0472),
                  post_nombre = ''Incendio_2024-01-01_417''\<rparr>],
              incendioData := incident_no_coordinates, incidentDeclared := True,
              alerts := [Error_al_declarar]\<rparr>"
proof -
  have "createPropagationCone host0 incident_no_coordinates = Inl TypeError"
    by (simp add: cone_eval incident_no_coordinates_def weather_defs)
  then show ?thesis
    by (simp add: handleDeclareIncident_def declare_try_def dispatch0_def Let_def
          no_coordinates_brigade_analysis)
qed

section \<open>Properties of layer loading\<close>

lemma loadLayerData_guard:
  assumes "find (\<lambda>c. layer_id c = layerId) LAYER_CONFIGS = None
           \<or> truthy (case captured layerId of None \<Rightarrow> Undefined | Some v \<Rightarrow> v)"
  shows "loadLayerData env captured layerId s = s"
  using assms by (auto simp: loadLayerData_def split: option.splits)

lemma loadLayerData_other_layer:
  assumes "layerId \<noteq> k"
  shows "layerData (loadLayerData env captured layerId s) k = layerData s k"
  using assms
  by (simp add: loadLayerData_def Let_def
        split: option.splits fetch_outcome.splits sum.splits)

lemma loadLayerData_latest_instance_keeps:
  assumes "layerData s k = Some d" and "truthy d"
  shows "layerData (loadLayerData env (layerData s) layerId s) k = Some d"
proof (cases "layerId = k")
  case True
  then show ?thesis using assms by (simp add: loadLayerData_guard)
next
  case False
  then show ?thesis using assms by (simp add: loadLayerData_other_layer)
qed

lemmas layer_eval =
  loadLayerData_def LAYER_CONFIGS_def serving_def layers0_def Let_def

lemma layers1_eq:
  "layers1 =
     \<lparr>layerData = [''centrales-enhanced'' \<mapsto> centrales],
      enhancedLayers = [''centrales-enhanced'' \<mapsto> Arr []],
      loadedLayers = {''centrales-enhanced''},
      fetched = [''/recursos_actualizados_centrales_point_enhanced.geojson'']\<rparr>"
  by (simp add: layers1_def layer_eval)

lemma layers2_eq:
  "layers2 =
     \<lparr>layerData = [''centrales-enhanced'' \<mapsto> centrales, ''zonasur-activas'' \<mapsto> zonasur1],
      enhancedLayers = [''centrales-enhanced'' \<mapsto> Arr [], ''zonasur-activas'' \<mapsto> Arr []],
      loadedLayers = {''centrales-enhanced'', ''zonasur-activas''},
      fetched = [''/recursos_actualizados_centrales_point_enhanced.geojson'',
                 ''/recursos_actualizados_zonasur_activas.geojson'']\<rparr>"
  unfolding layers2_def layers1_eq by (auto simp: layer_eval)

text \<open>
  C6. The claim says that once \<open>layerData[layerId]\<close> is set a further call of
  \<open>loadLayerData(layerId)\<close> fetches nothing and that loaded data is never replaced. The
  guard reads the \<open>layerData\<close> that the callback instance captured. In \<open>layers2\<close> the
  mount effect's loop has loaded two layers. The render that followed the first load made
  an instance whose \<open>layerData\<close> is that of \<open>layers1\<close>, and the map-readiness effect of
  that render started a timer that calls it for every enabled layer missing from its
  \<open>loadedLayers\<close>. Called in \<open>layers2\<close> for the second layer, that instance fetches the
  file again and replaces the stored document.
\<close>

theorem loadLayerData_earlier_instance_reloads:
  "layerData layers2 ''zonasur-activas'' = Some zonasur1 \<and>
   fetched layers2 = [''/recursos_actualizados_centrales_point_enhanced.geojson'',
                      ''/recursos_actualizados_zonasur_activas.geojson''] \<and>
   layerData (loadLayerData (serving zonasur2) (layerData layers1) ''zonasur-activas'' layers2)
     ''zonasur-activas'' = Some zonasur2 \<and>
   fetched (loadLayerData (serving zonasur2) (layerData layers1) ''zonasur-activas'' layers2)
     = [''/recursos_actualizados_centrales_point_enhanced.geojson'',
        ''/recursos_actualizados_zonasur_activas.geojson'',
        ''/recursos_actualizados_zonasur_activas.geojson'']"
  unfolding layers2_eq layers1_eq by (simp add: layer_eval)

theorem loadLayerData_earlier_instance_reloads_witness:
  "truthy zonasur1 \<and> zonasur1 \<noteq> zonasur2 \<and>
   layerData (loadLayerData (serving zonasur2) (layerData layers1) ''zonasur-activas'' layers2)
     ''zonasur-activas'' \<noteq> layerData layers2 ''zonasur-activas'' \<and>
   length (fetched (loadLayerData (serving zonasur2) (layerData layers1) ''zonasur-activas''
                      layers2)) = length (fetched layers2) + 1"
  using loadLayerData_earlier_instance_reloads by (simp add: zonasur1_def zonasur2_def)

text \<open>
  The instance of the latest render does skip the fetch (\<open>loadLayerData_guard\<close> with
  \<open>captured = layerData s\<close>), unless the stored document is falsy: the guard tests the
  entry's truthiness, so a file whose JSON is \<open>null\<close> is fetched again by every call.
\<close>

lemma loadLayerData_latest_instance_skips:
  "loadLayerData (serving zonasur2) (layerData layers2) ''zonasur-activas'' layers2 = layers2"
proof (rule loadLayerData_guard)
  show "find (\<lambda>c. layer_id c = ''zonasur-activas'') LAYER_CONFIGS = None
        \<or> truthy (case layerData layers2 ''zonasur-activas'' of
                      None \<Rightarrow> Undefined | Some v \<Rightarrow> v)"
    unfolding layers2_eq by (simp add: zonasur1_def)
qed

lemma loadLayerData_null_document:
  "fetched (loadLayerData (serving Null)
              (layerData (loadLayerData (serving Null) Map.empty ''red-vial'' layers0))
              ''red-vial'' (loadLayerData (serving Null) Map.empty ''red-vial'' layers0))
     = [''/red_vial_valparaiso.geojson'', ''/red_vial_valparaiso.geojson'']"
  by (simp add: layer_eval)

end
